theory Spec2Isabelle
  imports Complex_Main
begin

section \<open>The arm behaviour nodelet (behaviors/arm/src/arm_nodelet.cc)\<close>

text \<open>
  The nodelet keeps a table of three joints, a finite state machine and a handful of
  publishers, timers and an action server. The model below follows the class member by
  member. \<open>Initialize\<close> and \<open>ReconfigureCallback\<close>, which fill the joint table and the
  tolerances from the configuration, are not modelled: the table and the two timeouts
  are part of the state of the nodelet, with any content. Three conventions hold
  throughout.

  \<^item> A C++ \<open>double\<close> is modelled as a \<open>real\<close>: comparisons and the arithmetic of
    \<open>Equal\<close> are the exact ones, without rounding, infinities or NaN. The constants of
    the class and the values used in the examples below are small integers or multiples
    of one half, on which the double arithmetic of the source is exact as well. The
    literal \<open>0.1\<close> of the collision check is not one tenth but the double nearest to it,
    and is modelled as that number, \<open>double_0_1\<close>.
  \<^item> A member function that reads or writes the nodelet takes the nodelet and returns
    it, next to its result if it has one.
  \<^item> Everything the nodelet sends to a collaborator (a published message, a call on the
    action server, a timer being stopped or started) is appended to the field \<open>sent\<close>
    of the nodelet, oldest first. Debug and warning log lines are left out.
\<close>

subsection \<open>Joints\<close>

datatype JointType = PAN | TILT | GRIPPER

record JointInfo =
  name :: string
  generic :: string
  val :: real
  goal :: real
  tol :: real
  offset :: real
  scale :: real

text \<open>
  \<open>std::map<JointType, JointInfo>\<close> and \<open>std::map<std::string, JointType>\<close>. An entry
  that \<open>operator[]\<close> creates is value-initialised: empty strings and zeros.
\<close>

type_synonym JointMap = "JointType \<rightharpoonup> JointInfo"
type_synonym JointDictionary = "string \<rightharpoonup> JointType"

definition JointInfo_init :: JointInfo where
  "JointInfo_init =
     \<lparr>name = [], generic = [], val = 0, goal = 0, tol = 0, offset = 0, scale = 0\<rparr>"

subsection \<open>States, events, responses\<close>

text \<open>The constants \<open>STATE::...\<close> of \<open>ff_msgs::ArmState\<close>.\<close>

datatype STATE =
    STATE_INITIALIZING | STATE_UNKNOWN | STATE_STOWED | STATE_DEPLOYED
  | STATE_PANNING | STATE_TILTING | STATE_SETTING | STATE_CALIBRATING
  | STATE_STOWING_SETTING | STATE_STOWING_PANNING | STATE_STOWING_TILTING
  | STATE_DEPLOYING_PANNING | STATE_DEPLOYING_TILTING

text \<open>
  The anonymous enumeration of events. Each is one bit of an \<open>FSM::Event\<close> in the
  source, and \<open>TIMEOUT | GOAL_CANCEL\<close> names the two events at once; here an event is a
  constructor and such a mask is the list of its events.
\<close>

datatype Event =
    READY | DEPLOYED | STOWED | GOAL_DEPLOY | GOAL_STOW | GOAL_MOVE | GOAL_CALIBRATE
  | GOAL_SET | GOAL_CANCEL | PAN_COMPLETE | TILT_COMPLETE | GRIPPER_COMPLETE
  | CALIBRATE_COMPLETE | TIMEOUT

text \<open>
  The constants \<open>RESPONSE::...\<close> of \<open>ff_msgs::ArmResult\<close> are \<open>int32\<close> values declared
  in a message file that is not part of the sources. They are a parameter of the model:
  a record of integers, one field per constant the nodelet uses.
\<close>

record RESPONSE =
  RESPONSE_SUCCESS :: int
  RESPONSE_PAN_FAILED :: int
  RESPONSE_TILT_FAILED :: int
  RESPONSE_GRIPPER_FAILED :: int
  RESPONSE_CALIBRATE_FAILED :: int
  RESPONSE_BAD_TILT_VALUE :: int
  RESPONSE_BAD_PAN_VALUE :: int
  RESPONSE_BAD_GRIPPER_VALUE :: int
  RESPONSE_COLLISION_AVOIDED :: int
  RESPONSE_NEED_TO_CALIBRATE :: int
  RESPONSE_INVALID_COMMAND :: int
  RESPONSE_NOT_ALLOWED :: int
  RESPONSE_COMMUNICATION_ERROR :: int

text \<open>\<open>ff_util::FreeFlyerActionState\<close>, as far as \<open>Result\<close> uses it.\<close>

datatype FreeFlyerActionState = ACTION_SUCCESS | ACTION_ABORTED | ACTION_PREEMPTED

text \<open>The reduced states of \<open>ff_msgs::ArmGripperState\<close> and \<open>ff_msgs::ArmJointState\<close>.\<close>

datatype ArmGripperState =
    GRIPPER_UNCALIBRATED | GRIPPER_CLOSED | GRIPPER_OPENED | GRIPPER_CALIBRATING

datatype ArmJointState =
    JOINT_UNKNOWN | JOINT_DEPLOYING | JOINT_STOPPED | JOINT_MOVING | JOINT_STOWING
  | JOINT_STOWED

subsection \<open>Messages\<close>

text \<open>
  One entry of \<open>ff_msgs::JointSampleStamped\<close>: generic name, position in human units,
  velocity and current.
\<close>

record JointSample =
  js_name :: string
  js_angle_pos :: real
  js_angle_vel :: real
  js_current :: real

text \<open>
  What the nodelet sends. A joint goal carries the low level name of the joint and its
  position in driver units, \<open>(goal - offset) / scale\<close>; the position is \<open>None\<close> when
  \<open>scale\<close> is zero, where the source divides by zero and publishes a non-finite number.
  Starting a timer carries the period it is set to.
\<close>

datatype Sent =
    PublishJointGoal string "real option"
  | TimerGoalStop
  | TimerGoalStart real
  | TimerWatchdogStop
  | TimerWatchdogStart real
  | PublishState STATE
  | PublishArmState ArmGripperState ArmJointState
  | PublishJointSample "JointSample list"
  | SendResult FreeFlyerActionState int
  | SendFeedback STATE real real real

subsection \<open>The nodelet\<close>

text \<open>
  The members of \<open>ArmNodelet\<close> that carry state: the current state of \<open>fsm_\<close>, the two
  maps, the two timeouts read from \<open>cfg_\<close>, and the trace of what was sent.
\<close>

record ArmNodelet =
  fsm_state :: STATE
  joints :: JointMap
  dictionary :: JointDictionary
  timeout_goal :: real
  timeout_watchdog :: real
  sent :: "Sent list"

text \<open>The constant values at the end of the class.\<close>

definition K_PAN_OFFSET :: real where "K_PAN_OFFSET = 0"
definition K_PAN_MIN :: real where "K_PAN_MIN = - 90"
definition K_PAN_MAX :: real where "K_PAN_MAX = 90"
definition K_PAN_STOW :: real where "K_PAN_STOW = 0"
definition K_PAN_DEPLOY :: real where "K_PAN_DEPLOY = 0"
definition K_TILT_OFFSET :: real where "K_TILT_OFFSET = 90"
definition K_TILT_MIN :: real where "K_TILT_MIN = - 20"
definition K_TILT_MAX :: real where "K_TILT_MAX = 180"
definition K_TILT_STOW :: real where "K_TILT_STOW = 180"
definition K_TILT_DEPLOY :: real where "K_TILT_DEPLOY = 0"
definition K_TILT_SAFE :: real where "K_TILT_SAFE = 90"
definition K_GRIPPER_STOW :: real where "K_GRIPPER_STOW = 20"
definition K_GRIPPER_DEPLOY :: real where "K_GRIPPER_DEPLOY = 20"
definition K_GRIPPER_OPEN :: real where "K_GRIPPER_OPEN = 45"
definition K_GRIPPER_CLOSE :: real where "K_GRIPPER_CLOSE = 20"
definition K_GRIPPER_CAL :: real where "K_GRIPPER_CAL = - 100"

text \<open>
  The literal \<open>0.1\<close> in the collision check of \<open>GoalCallback\<close>. A \<open>double\<close> cannot hold one
  tenth; the literal denotes the nearest double, 3602879701896397 / 2^55, which is a
  little more than one tenth. The check subtracts \<open>K_PAN_STOW\<close>, which is zero, takes the
  absolute value and compares: each step is exact on doubles, so with this constant the
  check of the model is the check of the source.
\<close>

definition double_0_1 :: real where
  "double_0_1 = 3602879701896397 / 36028797018963968"

subsection \<open>Access to the joint table\<close>

text \<open>
  \<open>joints_[t]\<close>: the entry of \<open>t\<close>, which \<open>operator[]\<close> inserts first when the table
  has none. Reading through \<open>operator[]\<close> can therefore change the table.
\<close>

definition joints_at :: "JointType \<Rightarrow> ArmNodelet \<Rightarrow> JointInfo \<times> ArmNodelet" where
  "joints_at t s =
     (case joints s t of
        Some j \<Rightarrow> (j, s)
      | None \<Rightarrow> (JointInfo_init, s\<lparr>joints := (joints s)(t \<mapsto> JointInfo_init)\<rparr>))"

text \<open>\<open>joints_[t].field = ...\<close>: an assignment to a field of the entry of \<open>t\<close>.\<close>

definition joints_assign ::
  "JointType \<Rightarrow> (JointInfo \<Rightarrow> JointInfo) \<Rightarrow> ArmNodelet \<Rightarrow> ArmNodelet" where
  "joints_assign t f s =
     (case joints_at t s of (j, s') \<Rightarrow> s'\<lparr>joints := (joints s')(t \<mapsto> f j)\<rparr>)"

definition emit :: "Sent list \<Rightarrow> ArmNodelet \<Rightarrow> ArmNodelet" where
  "emit xs s = s\<lparr>sent := sent s @ xs\<rparr>"

subsection \<open>Tolerant comparison\<close>

text \<open>
  \<open>Equal(t, v)\<close>: whether the value of joint \<open>t\<close> and \<open>v\<close> are sufficiently close,
  respecting modular math.
\<close>

definition Equal :: "JointType \<Rightarrow> real \<Rightarrow> ArmNodelet \<Rightarrow> bool \<times> ArmNodelet" where
  "Equal t v s =
     (case joints_at t s of
        (j, s') \<Rightarrow> (180 - \<bar>\<bar>val j - v\<bar> - 180\<bar> < tol j, s'))"

definition IsStowed :: "ArmNodelet \<Rightarrow> bool \<times> ArmNodelet" where
  "IsStowed s =
     (case Equal PAN K_PAN_STOW s of
        (b1, s1) \<Rightarrow>
          if \<not> b1 then (False, s1)
          else (case Equal TILT K_TILT_STOW s1 of
                  (b2, s2) \<Rightarrow> if \<not> b2 then (False, s2) else (True, s2)))"

definition RequiresClosing :: "ArmNodelet \<Rightarrow> bool \<times> ArmNodelet" where
  "RequiresClosing s =
     (case Equal GRIPPER K_GRIPPER_CAL s of
        (b1, s1) \<Rightarrow>
          if b1 then (False, s1)
          else (case Equal GRIPPER K_GRIPPER_STOW s1 of (b2, s2) \<Rightarrow> (\<not> b2, s2)))"

subsection \<open>Sending a joint goal\<close>

text \<open>
  \<open>Arm(type)\<close>: fails when the joint is not in the table; otherwise publishes the goal of
  the joint in driver units, \<open>driver_position\<close>, and restarts the goal timer.
\<close>

definition driver_position :: "JointInfo \<Rightarrow> real option" where
  "driver_position j = (if scale j = 0 then None else Some ((goal j - offset j) / scale j))"

definition Arm :: "JointType \<Rightarrow> ArmNodelet \<Rightarrow> bool \<times> ArmNodelet" where
  "Arm t s =
     (case joints s t of
        None \<Rightarrow> (False, s)
      | Some j \<Rightarrow>
          (True,
           emit [PublishJointGoal (name j) (driver_position j),
                 TimerGoalStop,
                 TimerGoalStart (timeout_goal s)] s))"

subsection \<open>Completing the current action\<close>

text \<open>
  \<open>Result(response, send)\<close>: writes the current value of every joint of the table to its
  goal, sends a result when \<open>send\<close> is set or the current state is one that tracks a goal,
  and returns the state to wait in. The two calls of \<open>Arm\<close> in the body of the source are
  commented out, and so absent here.
\<close>

definition tracking :: "STATE \<Rightarrow> bool" where
  "tracking st \<longleftrightarrow>
     st \<in> {STATE_PANNING, STATE_TILTING, STATE_SETTING, STATE_CALIBRATING,
           STATE_STOWING_SETTING, STATE_STOWING_PANNING, STATE_STOWING_TILTING,
           STATE_DEPLOYING_PANNING, STATE_DEPLOYING_TILTING}"

definition action_state :: "int \<Rightarrow> FreeFlyerActionState" where
  "action_state response =
     (if response > 0 then ACTION_SUCCESS
      else if response < 0 then ACTION_ABORTED
      else ACTION_PREEMPTED)"

definition Result :: "RESPONSE \<Rightarrow> int \<Rightarrow> bool \<Rightarrow> ArmNodelet \<Rightarrow> STATE \<times> ArmNodelet" where
  "Result R response send s =
     (let s1 = s\<lparr>joints := (\<lambda>t. map_option (\<lambda>j. j\<lparr>goal := val j\<rparr>) (joints s t))\<rparr>;
          send' = (if tracking (fsm_state s1) then True else send);
          s2 = (if send' then emit [SendResult (action_state response) response] s1
                else s1)
      in if response = RESPONSE_COMMUNICATION_ERROR R then (STATE_INITIALIZING, s2)
         else (case IsStowed s2 of
                 (True, s3) \<Rightarrow> (STATE_STOWED, s3)
               | (False, s3) \<Rightarrow> (STATE_DEPLOYED, s3)))"

subsection \<open>The observer of the state machine\<close>

text \<open>
  \<open>UpdateCallback(state, event)\<close>: publishes the state, and the reduced state made of a
  gripper state and a joint state. The event only feeds a debug line. In the second
  switch of the source \<open>STATE::INITIALIZING\<close> has no label and takes the default.
\<close>

definition UpdateCallback :: "STATE \<Rightarrow> Event \<Rightarrow> ArmNodelet \<Rightarrow> ArmNodelet" where
  "UpdateCallback st event s =
     (case joints_at GRIPPER (emit [PublishState st] s) of
        (g, s1) \<Rightarrow>
          let gripper_state =
                (if val g < 0 then GRIPPER_UNCALIBRATED
                 else if \<bar>val g - K_GRIPPER_CLOSE\<bar> < tol g then GRIPPER_CLOSED
                 else GRIPPER_OPENED)
          in emit
               [if st = STATE_DEPLOYING_PANNING \<or> st = STATE_DEPLOYING_TILTING
                  then PublishArmState gripper_state JOINT_DEPLOYING
                else if st = STATE_CALIBRATING
                  then PublishArmState GRIPPER_CALIBRATING JOINT_STOPPED
                else if st = STATE_DEPLOYED \<or> st = STATE_SETTING
                  then PublishArmState gripper_state JOINT_STOPPED
                else if st = STATE_PANNING \<or> st = STATE_TILTING
                  then PublishArmState gripper_state JOINT_MOVING
                else if st = STATE_STOWING_SETTING \<or> st = STATE_STOWING_PANNING
                        \<or> st = STATE_STOWING_TILTING
                  then PublishArmState gripper_state JOINT_STOWING
                else if st = STATE_STOWED
                  then PublishArmState gripper_state JOINT_STOWED
                else PublishArmState gripper_state JOINT_UNKNOWN] s1)"

subsection \<open>The state machine\<close>

type_synonym TransitionCallback = "Event \<Rightarrow> ArmNodelet \<Rightarrow> STATE \<times> ArmNodelet"
type_synonym FSM = "STATE \<times> Event \<rightharpoonup> TransitionCallback"

text \<open>
  Modelled from the spec: the class \<open>ff_util::FSM\<close> (ff_util/ff_fsm.h), which is not part
  of the sources. The spec describes it as a deterministic table from (state, event) to
  a side effect and a next state, where one handler may be registered for several events
  (\<open>Timeout | GoalCancel\<close>) and, in the two-state form of \<open>Add\<close>, for several states.
  \<open>fsm_Add\<close> registers a handler under each pair of one of the states and one of the
  events; a later registration of the same pair replaces an earlier one.
\<close>

definition fsm_Add :: "STATE list \<Rightarrow> Event list \<Rightarrow> TransitionCallback \<Rightarrow> FSM \<Rightarrow> FSM" where
  "fsm_Add states events callback fsm =
     (\<lambda>key. if fst key \<in> set states \<and> snd key \<in> set events then Some callback
            else fsm key)"

text \<open>
  The table that the constructor \<open>ArmNodelet()\<close> builds: its twenty-six calls of
  \<open>fsm_.Add\<close>, in the order of the source, each with the body of its lambda.
\<close>

definition fsm_table :: "RESPONSE \<Rightarrow> FSM" where
  "fsm_table R =
     foldl (\<lambda>fsm add. add fsm) Map.empty
      [fsm_Add [STATE_INITIALIZING] [READY]
         (\<lambda>event s. (STATE_UNKNOWN, s)),
       fsm_Add [STATE_UNKNOWN] [STOWED]
         (\<lambda>event s. (STATE_STOWED, s)),
       fsm_Add [STATE_UNKNOWN] [DEPLOYED]
         (\<lambda>event s. (STATE_DEPLOYED, s)),
       fsm_Add [STATE_STOWED] [DEPLOYED]
         (\<lambda>event s. (STATE_DEPLOYED, s)),
       fsm_Add [STATE_DEPLOYED] [STOWED]
         (\<lambda>event s. (STATE_STOWED, s)),
       fsm_Add [STATE_STOWED] [GOAL_DEPLOY]
         (\<lambda>event s. case Arm PAN s of
            (False, s1) \<Rightarrow> Result R (RESPONSE_PAN_FAILED R) False s1
          | (True, s1) \<Rightarrow> (STATE_DEPLOYING_PANNING, s1)),
       fsm_Add [STATE_DEPLOYING_PANNING] [PAN_COMPLETE]
         (\<lambda>event s. case Arm TILT s of
            (False, s1) \<Rightarrow> Result R (RESPONSE_TILT_FAILED R) False s1
          | (True, s1) \<Rightarrow> (STATE_DEPLOYING_TILTING, s1)),
       fsm_Add [STATE_DEPLOYING_TILTING] [TILT_COMPLETE]
         (\<lambda>event s. Result R (RESPONSE_SUCCESS R) False s),
       fsm_Add [STATE_DEPLOYED] [GOAL_STOW]
         (\<lambda>event s. case RequiresClosing s of
            (True, s1) \<Rightarrow>
              (case Arm GRIPPER s1 of
                 (False, s2) \<Rightarrow> Result R (RESPONSE_GRIPPER_FAILED R) False s2
               | (True, s2) \<Rightarrow> (STATE_STOWING_SETTING, s2))
          | (False, s1) \<Rightarrow>
              (case Arm PAN s1 of
                 (False, s2) \<Rightarrow> Result R (RESPONSE_PAN_FAILED R) False s2
               | (True, s2) \<Rightarrow> (STATE_STOWING_PANNING, s2))),
       fsm_Add [STATE_STOWING_SETTING] [GRIPPER_COMPLETE]
         (\<lambda>event s. case Arm PAN s of
            (False, s1) \<Rightarrow> Result R (RESPONSE_PAN_FAILED R) False s1
          | (True, s1) \<Rightarrow> (STATE_STOWING_PANNING, s1)),
       fsm_Add [STATE_STOWING_SETTING] [TIMEOUT, GOAL_CANCEL]
         (\<lambda>event s. Result R (RESPONSE_GRIPPER_FAILED R) False s),
       fsm_Add [STATE_STOWING_PANNING] [PAN_COMPLETE]
         (\<lambda>event s. case Arm TILT s of
            (False, s1) \<Rightarrow> Result R (RESPONSE_TILT_FAILED R) False s1
          | (True, s1) \<Rightarrow> (STATE_STOWING_TILTING, s1)),
       fsm_Add [STATE_STOWING_PANNING] [TIMEOUT, GOAL_CANCEL]
         (\<lambda>event s. Result R (RESPONSE_PAN_FAILED R) False s),
       fsm_Add [STATE_STOWING_TILTING] [TILT_COMPLETE]
         (\<lambda>event s. Result R (RESPONSE_SUCCESS R) False s),
       fsm_Add [STATE_STOWING_TILTING] [TIMEOUT, GOAL_CANCEL]
         (\<lambda>event s. Result R (RESPONSE_TILT_FAILED R) False s),
       fsm_Add [STATE_STOWED, STATE_DEPLOYED] [GOAL_MOVE]
         (\<lambda>event s. case Arm PAN s of
            (False, s1) \<Rightarrow> Result R (RESPONSE_PAN_FAILED R) False s1
          | (True, s1) \<Rightarrow> (STATE_PANNING, s1)),
       fsm_Add [STATE_PANNING] [PAN_COMPLETE]
         (\<lambda>event s. case Arm TILT s of
            (False, s1) \<Rightarrow> Result R (RESPONSE_TILT_FAILED R) False s1
          | (True, s1) \<Rightarrow> (STATE_TILTING, s1)),
       fsm_Add [STATE_PANNING] [TIMEOUT, GOAL_CANCEL]
         (\<lambda>event s. Result R (RESPONSE_PAN_FAILED R) False s),
       fsm_Add [STATE_TILTING] [TILT_COMPLETE]
         (\<lambda>event s. Result R (RESPONSE_SUCCESS R) False s),
       fsm_Add [STATE_TILTING] [TIMEOUT, GOAL_CANCEL]
         (\<lambda>event s. Result R (RESPONSE_TILT_FAILED R) False s),
       fsm_Add [STATE_DEPLOYED] [GOAL_SET]
         (\<lambda>event s. case Arm GRIPPER s of
            (False, s1) \<Rightarrow> Result R (RESPONSE_GRIPPER_FAILED R) False s1
          | (True, s1) \<Rightarrow> (STATE_SETTING, s1)),
       fsm_Add [STATE_SETTING] [GRIPPER_COMPLETE]
         (\<lambda>event s. Result R (RESPONSE_SUCCESS R) False s),
       fsm_Add [STATE_SETTING] [TIMEOUT, GOAL_CANCEL]
         (\<lambda>event s. Result R (RESPONSE_GRIPPER_FAILED R) False s),
       fsm_Add [STATE_DEPLOYED] [GOAL_CALIBRATE]
         (\<lambda>event s. case Arm GRIPPER s of
            (False, s1) \<Rightarrow> Result R (RESPONSE_CALIBRATE_FAILED R) False s1
          | (True, s1) \<Rightarrow> (STATE_CALIBRATING, s1)),
       fsm_Add [STATE_CALIBRATING] [CALIBRATE_COMPLETE]
         (\<lambda>event s. Result R (RESPONSE_SUCCESS R) False s),
       fsm_Add [STATE_CALIBRATING] [TIMEOUT, GOAL_CANCEL]
         (\<lambda>event s. Result R (RESPONSE_CALIBRATE_FAILED R) False s)]"

text \<open>
  Modelled from the spec: \<open>fsm_.Update(event)\<close> and \<open>fsm_.SetState(state)\<close> of the same
  class. When no table entry matches the current state and the event, the event is
  ignored: no transition, no side effect. Otherwise the handler of the entry runs, with
  the state being left still current; what it returns becomes the current state, and the
  observer hook fires with the new state and the triggering event. \<open>SetState\<close> forces the
  current state directly, bypassing the table.
\<close>

definition fsm_Update :: "RESPONSE \<Rightarrow> Event \<Rightarrow> ArmNodelet \<Rightarrow> ArmNodelet" where
  "fsm_Update R event s =
     (case fsm_table R (fsm_state s, event) of
        None \<Rightarrow> s
      | Some callback \<Rightarrow>
          (case callback event s of
             (st, s1) \<Rightarrow> UpdateCallback st event (s1\<lparr>fsm_state := st\<rparr>)))"

definition fsm_SetState :: "STATE \<Rightarrow> ArmNodelet \<Rightarrow> ArmNodelet" where
  "fsm_SetState st s = s\<lparr>fsm_state := st\<rparr>"

text \<open>\<open>SetStateCallback(req, res)\<close>: the state of the request is forced.\<close>

definition SetStateCallback :: "STATE \<Rightarrow> ArmNodelet \<Rightarrow> ArmNodelet" where
  "SetStateCallback req_state s = fsm_SetState req_state s"

subsection \<open>Timers\<close>

definition TimeoutCallback :: "RESPONSE \<Rightarrow> ArmNodelet \<Rightarrow> ArmNodelet" where
  "TimeoutCallback R s = fsm_Update R TIMEOUT s"

definition WatchdogCallback :: "RESPONSE \<Rightarrow> ArmNodelet \<Rightarrow> ArmNodelet" where
  "WatchdogCallback R s =
     (case Result R (RESPONSE_COMMUNICATION_ERROR R) False s of
        (st, s1) \<Rightarrow> fsm_SetState st s1)"

subsection \<open>Telemetry\<close>

text \<open>
  A \<open>sensor_msgs::JointState\<close> message holds four parallel arrays that the callback reads
  at the same index; an entry below is one index of the message. (A message whose
  \<open>position\<close>, \<open>velocity\<close> or \<open>effort\<close> array is shorter than \<open>name\<close> is read out of
  range by the source and has no counterpart here.)
\<close>

record JointStateEntry =
  msg_name :: string
  msg_position :: real
  msg_velocity :: real
  msg_effort :: real

text \<open>
  The loop of \<open>JointStateCallback\<close> over the entries of the message, carrying the samples
  collected so far and the nodelet. Names that the dictionary does not know are skipped.
\<close>

fun JointStateCallback_loop ::
  "JointStateEntry list \<Rightarrow> JointSample list \<Rightarrow> ArmNodelet \<Rightarrow> JointSample list \<times> ArmNodelet"
where
  "JointStateCallback_loop [] samples s = (samples, s)"
| "JointStateCallback_loop (m # ms) samples s =
     (case dictionary s (msg_name m) of
        None \<Rightarrow> JointStateCallback_loop ms samples s
      | Some g \<Rightarrow>
          let s1 = joints_assign g (\<lambda>j. j\<lparr>val := msg_position m * scale j + offset j\<rparr>) s;
              s2 = (case joints_at g s1 of
                      (j, s') \<Rightarrow>
                        if generic j = ''gripper'' \<and> msg_position m = K_GRIPPER_CAL
                        then joints_assign g (\<lambda>j. j\<lparr>val := K_GRIPPER_CAL\<rparr>) s'
                        else s')
          in (case joints_at g s2 of
                (j, s3) \<Rightarrow>
                  JointStateCallback_loop ms
                    (samples @
                     [\<lparr>js_name = generic j, js_angle_pos = val j,
                       js_angle_vel = msg_velocity m, js_current = msg_effort m\<rparr>])
                    s3))"

text \<open>
  The end of \<open>JointStateCallback\<close>, reached by the branches of its switch that \<open>break\<close>:
  the samples are published, and feedback is sent when the state tracks a goal.
\<close>

definition JointStateCallback_publish :: "JointSample list \<Rightarrow> ArmNodelet \<Rightarrow> ArmNodelet" where
  "JointStateCallback_publish samples s =
     (let s1 = emit [PublishJointSample samples] s
      in if tracking (fsm_state s1)
         then (case joints_at PAN s1 of
                 (p, s2) \<Rightarrow>
                   (case joints_at TILT s2 of
                      (t, s3) \<Rightarrow>
                        (case joints_at GRIPPER s3 of
                           (g, s4) \<Rightarrow>
                             emit [SendFeedback (fsm_state s4) (val p) (val t) (val g)] s4)))
         else s1)"

text \<open>
  \<open>JointStateCallback(msg)\<close>. The branches that \<open>return fsm_.Update(...)\<close> leave the
  callback at once; the others go on to publish. Every state has a label in the switch,
  so its default, the last branch below, is never taken.
\<close>

definition JointStateCallback ::
  "RESPONSE \<Rightarrow> JointStateEntry list \<Rightarrow> ArmNodelet \<Rightarrow> ArmNodelet" where
  "JointStateCallback R msg s =
     (case JointStateCallback_loop msg [] s of
        (samples, s1) \<Rightarrow>
          if samples = [] then s1
          else
            let s2 = emit [TimerWatchdogStop, TimerWatchdogStart (timeout_watchdog s1)] s1;
                st = fsm_state s2
            in if st = STATE_UNKNOWN then
                 (case IsStowed s2 of
                    (True, s3) \<Rightarrow> fsm_Update R STOWED s3
                  | (False, s3) \<Rightarrow> fsm_Update R DEPLOYED s3)
               else if st = STATE_STOWED then
                 (case IsStowed s2 of
                    (False, s3) \<Rightarrow> fsm_Update R DEPLOYED s3
                  | (True, s3) \<Rightarrow> JointStateCallback_publish samples s3)
               else if st = STATE_DEPLOYED then
                 (case IsStowed s2 of
                    (True, s3) \<Rightarrow> fsm_Update R STOWED s3
                  | (False, s3) \<Rightarrow> JointStateCallback_publish samples s3)
               else if st = STATE_INITIALIZING then
                 JointStateCallback_publish samples (fsm_Update R READY s2)
               else if st = STATE_PANNING \<or> st = STATE_STOWING_PANNING
                         \<or> st = STATE_DEPLOYING_PANNING then
                 (case joints_at PAN s2 of
                    (p, s3) \<Rightarrow>
                      (case Equal PAN (goal p) s3 of
                         (True, s4) \<Rightarrow>
                           JointStateCallback_publish samples
                             (fsm_Update R PAN_COMPLETE (emit [TimerGoalStop] s4))
                       | (False, s4) \<Rightarrow> JointStateCallback_publish samples s4))
               else if st = STATE_TILTING \<or> st = STATE_STOWING_TILTING
                         \<or> st = STATE_DEPLOYING_TILTING then
                 (case joints_at TILT s2 of
                    (p, s3) \<Rightarrow>
                      (case Equal TILT (goal p) s3 of
                         (True, s4) \<Rightarrow>
                           JointStateCallback_publish samples
                             (fsm_Update R TILT_COMPLETE (emit [TimerGoalStop] s4))
                       | (False, s4) \<Rightarrow> JointStateCallback_publish samples s4))
               else if st = STATE_SETTING \<or> st = STATE_STOWING_SETTING then
                 (case joints_at GRIPPER s2 of
                    (p, s3) \<Rightarrow>
                      (case Equal GRIPPER (goal p) s3 of
                         (True, s4) \<Rightarrow>
                           JointStateCallback_publish samples
                             (fsm_Update R GRIPPER_COMPLETE (emit [TimerGoalStop] s4))
                       | (False, s4) \<Rightarrow> JointStateCallback_publish samples s4))
               else if st = STATE_CALIBRATING then
                 (case Equal GRIPPER K_GRIPPER_CAL s2 of
                    (False, s3) \<Rightarrow>
                      JointStateCallback_publish samples
                        (fsm_Update R CALIBRATE_COMPLETE (emit [TimerGoalStop] s3))
                  | (True, s3) \<Rightarrow> JointStateCallback_publish samples s3)
               else s2)"

subsection \<open>Commands\<close>

text \<open>
  The field \<open>command\<close> of \<open>ff_msgs::ArmGoal\<close> and the constants the switch of
  \<open>GoalCallback\<close> names; \<open>COMMAND_OTHER\<close> stands for every other value, which takes the
  default of the switch.
\<close>

datatype Command =
    ARM_STOP | ARM_DEPLOY | ARM_STOW | ARM_PAN | ARM_TILT | ARM_MOVE
  | GRIPPER_CALIBRATE | GRIPPER_SET | GRIPPER_OPEN | GRIPPER_CLOSE | COMMAND_OTHER

record ArmGoal =
  command :: Command
  pan :: real
  tilt :: real
  gripper :: real

text \<open>
  \<open>GoalCallback(goal)\<close>. A branch of the switch that ends in \<open>break\<close> falls to the last
  statement, \<open>Result(RESPONSE::NOT_ALLOWED, true)\<close>; \<open>move\<close> is the body that the labels
  \<open>ARM_PAN\<close>, \<open>ARM_TILT\<close> and \<open>ARM_MOVE\<close> share. The value that \<open>Result\<close> returns is
  dropped wherever the callback calls it. The margin of the collision check is the double
  that the literal \<open>0.1\<close> denotes, \<open>double_0_1\<close>.
\<close>

definition GoalCallback :: "RESPONSE \<Rightarrow> ArmGoal \<Rightarrow> ArmNodelet \<Rightarrow> ArmNodelet" where
  "GoalCallback R g s =
     (let not_allowed = (\<lambda>s. snd (Result R (RESPONSE_NOT_ALLOWED R) True s));
          need_to_calibrate = (\<lambda>s. snd (Result R (RESPONSE_NEED_TO_CALIBRATE R) True s));
          move = (\<lambda>s.
            if fsm_state s = STATE_DEPLOYED \<or> fsm_state s = STATE_STOWED then
              (case joints_at PAN s of
                 (p, s1) \<Rightarrow>
                   let new_p = (if command g = ARM_MOVE \<or> command g = ARM_PAN
                                then pan g else goal p)
                   in (case joints_at TILT s1 of
                         (t, s2) \<Rightarrow>
                           let new_t = (if command g = ARM_MOVE \<or> command g = ARM_TILT
                                        then tilt g else goal t)
                           in if new_t < K_TILT_MIN \<or> new_t > K_TILT_MAX
                              then snd (Result R (RESPONSE_BAD_TILT_VALUE R) True s2)
                              else if new_p < K_PAN_MIN \<or> new_p > K_PAN_MAX
                              then snd (Result R (RESPONSE_BAD_PAN_VALUE R) True s2)
                              else if new_t > K_TILT_SAFE \<and> \<bar>new_p - K_PAN_STOW\<bar> > double_0_1
                              then snd (Result R (RESPONSE_COLLISION_AVOIDED R) True s2)
                              else fsm_Update R GOAL_MOVE
                                     (joints_assign TILT (\<lambda>j. j\<lparr>goal := new_t\<rparr>)
                                       (joints_assign PAN (\<lambda>j. j\<lparr>goal := new_p\<rparr>) s2))))
            else not_allowed s)
      in case command g of
        ARM_STOP \<Rightarrow>
          fsm_Update R GOAL_CANCEL
            (joints_assign GRIPPER (\<lambda>j. j\<lparr>goal := val j\<rparr>)
              (joints_assign TILT (\<lambda>j. j\<lparr>goal := val j\<rparr>)
                (joints_assign PAN (\<lambda>j. j\<lparr>goal := val j\<rparr>) s)))
      | ARM_DEPLOY \<Rightarrow>
          if fsm_state s = STATE_STOWED then
            fsm_Update R GOAL_DEPLOY
              (joints_assign GRIPPER (\<lambda>j. j\<lparr>goal := K_GRIPPER_DEPLOY\<rparr>)
                (joints_assign TILT (\<lambda>j. j\<lparr>goal := K_TILT_DEPLOY\<rparr>)
                  (joints_assign PAN (\<lambda>j. j\<lparr>goal := K_PAN_DEPLOY\<rparr>) s)))
          else not_allowed s
      | ARM_STOW \<Rightarrow>
          if fsm_state s = STATE_DEPLOYED then
            fsm_Update R GOAL_STOW
              (joints_assign GRIPPER (\<lambda>j. j\<lparr>goal := K_GRIPPER_STOW\<rparr>)
                (joints_assign TILT (\<lambda>j. j\<lparr>goal := K_TILT_STOW\<rparr>)
                  (joints_assign PAN (\<lambda>j. j\<lparr>goal := K_PAN_STOW\<rparr>) s)))
          else not_allowed s
      | ARM_PAN \<Rightarrow> move s
      | ARM_TILT \<Rightarrow> move s
      | ARM_MOVE \<Rightarrow> move s
      | GRIPPER_CALIBRATE \<Rightarrow>
          if fsm_state s = STATE_DEPLOYED then
            fsm_Update R GOAL_CALIBRATE
              (joints_assign TILT (\<lambda>j. j\<lparr>goal := K_GRIPPER_CAL\<rparr>) s)
          else not_allowed s
      | GRIPPER_SET \<Rightarrow>
          (case joints_at GRIPPER s of
             (j, s1) \<Rightarrow>
               if val j < 0 then need_to_calibrate s1
               else if fsm_state s1 = STATE_DEPLOYED then
                 if gripper g < K_GRIPPER_CLOSE \<or> gripper g > K_GRIPPER_OPEN
                 then snd (Result R (RESPONSE_BAD_GRIPPER_VALUE R) True s1)
                 else fsm_Update R GOAL_SET
                        (joints_assign GRIPPER (\<lambda>j. j\<lparr>goal := gripper g\<rparr>) s1)
               else not_allowed s1)
      | GRIPPER_OPEN \<Rightarrow>
          (case joints_at GRIPPER s of
             (j, s1) \<Rightarrow>
               if val j < 0 then need_to_calibrate s1
               else if fsm_state s1 = STATE_DEPLOYED then
                 fsm_Update R GOAL_SET
                   (joints_assign GRIPPER (\<lambda>j. j\<lparr>goal := K_GRIPPER_OPEN\<rparr>) s1)
               else not_allowed s1)
      | GRIPPER_CLOSE \<Rightarrow>
          (case joints_at GRIPPER s of
             (j, s1) \<Rightarrow>
               if val j < 0 then need_to_calibrate s1
               else if fsm_state s1 = STATE_DEPLOYED then
                 fsm_Update R GOAL_SET
                   (joints_assign GRIPPER (\<lambda>j. j\<lparr>goal := K_GRIPPER_CLOSE\<rparr>) s1)
               else not_allowed s1)
      | COMMAND_OTHER \<Rightarrow> snd (Result R (RESPONSE_INVALID_COMMAND R) True s))"

definition PreemptCallback :: "RESPONSE \<Rightarrow> ArmNodelet \<Rightarrow> ArmNodelet" where
  "PreemptCallback R s = fsm_Update R GOAL_CANCEL s"

definition CancelCallback :: "RESPONSE \<Rightarrow> ArmNodelet \<Rightarrow> ArmNodelet" where
  "CancelCallback R s = fsm_Update R GOAL_CANCEL s"

section \<open>Auxiliary definitions\<close>

text \<open>The loop at the head of \<open>Result\<close>, on its own.\<close>

definition snap :: "ArmNodelet \<Rightarrow> ArmNodelet" where
  "snap s = s\<lparr>joints := (\<lambda>t. map_option (\<lambda>j. j\<lparr>goal := val j\<rparr>) (joints s t))\<rparr>"

text \<open>
  Example values: a table of response codes with the sign convention of the action
  (positive for success, negative for failure), and a nodelet in state \<open>st\<close> whose three
  joints are registered, with tolerance 3 and values \<open>p\<close>, \<open>t\<close> and \<open>g\<close>.
\<close>

definition R_example :: RESPONSE where
  "R_example = \<lparr>RESPONSE_SUCCESS = 1, RESPONSE_PAN_FAILED = - 1, RESPONSE_TILT_FAILED = - 2,
     RESPONSE_GRIPPER_FAILED = - 3, RESPONSE_CALIBRATE_FAILED = - 4,
     RESPONSE_BAD_TILT_VALUE = - 5, RESPONSE_BAD_PAN_VALUE = - 6,
     RESPONSE_BAD_GRIPPER_VALUE = - 7, RESPONSE_COLLISION_AVOIDED = - 8,
     RESPONSE_NEED_TO_CALIBRATE = - 9, RESPONSE_INVALID_COMMAND = - 10,
     RESPONSE_NOT_ALLOWED = - 11, RESPONSE_COMMUNICATION_ERROR = - 12\<rparr>"

definition joint_example :: "string \<Rightarrow> string \<Rightarrow> real \<Rightarrow> real \<Rightarrow> real \<Rightarrow> JointInfo" where
  "joint_example n g v gl off =
     \<lparr>name = n, generic = g, val = v, goal = gl, tol = 3, offset = off, scale = 2\<rparr>"

definition nodelet_example :: "STATE \<Rightarrow> real \<Rightarrow> real \<Rightarrow> real \<Rightarrow> ArmNodelet" where
  "nodelet_example st p t g =
     \<lparr>fsm_state = st,
      joints = [PAN \<mapsto> joint_example ''arm_pan'' ''pan'' p 45 0,
                TILT \<mapsto> joint_example ''arm_tilt'' ''tilt'' t 60 90,
                GRIPPER \<mapsto> joint_example ''arm_gripper'' ''gripper'' g 20 20],
      dictionary = [''arm_pan'' \<mapsto> PAN, ''arm_tilt'' \<mapsto> TILT, ''arm_gripper'' \<mapsto> GRIPPER],
      timeout_goal = 10, timeout_watchdog = 5, sent = []\<rparr>"

text \<open>
  The values \<open>new_p\<close> and \<open>new_t\<close> that \<open>GoalCallback\<close> computes for a pan, tilt or move
  command: the angle of the command, or the current goal for the axis that the command
  does not name.
\<close>

definition proposed_pan :: "ArmGoal \<Rightarrow> ArmNodelet \<Rightarrow> real" where
  "proposed_pan g s =
     (if command g = ARM_MOVE \<or> command g = ARM_PAN then pan g
      else goal (fst (joints_at PAN s)))"

definition proposed_tilt :: "ArmGoal \<Rightarrow> ArmNodelet \<Rightarrow> real" where
  "proposed_tilt g s =
     (if command g = ARM_MOVE \<or> command g = ARM_TILT then tilt g
      else goal (fst (joints_at TILT s)))"

text \<open>
  The branches of \<open>GoalCallback\<close> that end in \<open>Result(code, true); return\<close>, or fall to
  the last statement of the callback: \<open>rejection\<close> gives the code of the branch that a
  command takes in a nodelet, and \<open>None\<close> when the command reaches \<open>fsm_.Update\<close>. The
  guards are those of the source, in its order.
\<close>

definition rejection :: "RESPONSE \<Rightarrow> ArmGoal \<Rightarrow> ArmNodelet \<Rightarrow> int option" where
  "rejection R g s =
     (let not_allowed = Some (RESPONSE_NOT_ALLOWED R);
          move =
            (if fsm_state s = STATE_DEPLOYED \<or> fsm_state s = STATE_STOWED then
               if proposed_tilt g s < K_TILT_MIN \<or> proposed_tilt g s > K_TILT_MAX
               then Some (RESPONSE_BAD_TILT_VALUE R)
               else if proposed_pan g s < K_PAN_MIN \<or> proposed_pan g s > K_PAN_MAX
               then Some (RESPONSE_BAD_PAN_VALUE R)
               else if proposed_tilt g s > K_TILT_SAFE
                       \<and> \<bar>proposed_pan g s - K_PAN_STOW\<bar> > double_0_1
               then Some (RESPONSE_COLLISION_AVOIDED R)
               else None
             else not_allowed);
          set_gripper = (\<lambda>bad.
            if val (fst (joints_at GRIPPER s)) < 0 then Some (RESPONSE_NEED_TO_CALIBRATE R)
            else if fsm_state s = STATE_DEPLOYED then
              if bad then Some (RESPONSE_BAD_GRIPPER_VALUE R) else None
            else not_allowed)
      in case command g of
        ARM_STOP \<Rightarrow> None
      | ARM_DEPLOY \<Rightarrow> if fsm_state s = STATE_STOWED then None else not_allowed
      | ARM_STOW \<Rightarrow> if fsm_state s = STATE_DEPLOYED then None else not_allowed
      | ARM_PAN \<Rightarrow> move
      | ARM_TILT \<Rightarrow> move
      | ARM_MOVE \<Rightarrow> move
      | GRIPPER_CALIBRATE \<Rightarrow> if fsm_state s = STATE_DEPLOYED then None else not_allowed
      | GRIPPER_SET \<Rightarrow>
          set_gripper (gripper g < K_GRIPPER_CLOSE \<or> gripper g > K_GRIPPER_OPEN)
      | GRIPPER_OPEN \<Rightarrow> set_gripper False
      | GRIPPER_CLOSE \<Rightarrow> set_gripper False
      | COMMAND_OTHER \<Rightarrow> Some (RESPONSE_INVALID_COMMAND R))"

text \<open>
  The same guards, for the body that the labels \<open>ARM_PAN\<close>, \<open>ARM_TILT\<close> and \<open>ARM_MOVE\<close>
  share, and that body with \<open>new_p\<close> and \<open>new_t\<close> written as above.
\<close>

definition move_rejection :: "RESPONSE \<Rightarrow> ArmGoal \<Rightarrow> ArmNodelet \<Rightarrow> int option" where
  "move_rejection R g s =
     (if fsm_state s = STATE_DEPLOYED \<or> fsm_state s = STATE_STOWED then
        if proposed_tilt g s < K_TILT_MIN \<or> proposed_tilt g s > K_TILT_MAX
        then Some (RESPONSE_BAD_TILT_VALUE R)
        else if proposed_pan g s < K_PAN_MIN \<or> proposed_pan g s > K_PAN_MAX
        then Some (RESPONSE_BAD_PAN_VALUE R)
        else if proposed_tilt g s > K_TILT_SAFE \<and> \<bar>proposed_pan g s - K_PAN_STOW\<bar> > double_0_1
        then Some (RESPONSE_COLLISION_AVOIDED R)
        else None
      else Some (RESPONSE_NOT_ALLOWED R))"

definition move_body :: "RESPONSE \<Rightarrow> ArmGoal \<Rightarrow> ArmNodelet \<Rightarrow> ArmNodelet" where
  "move_body R g s =
     (if fsm_state s = STATE_DEPLOYED \<or> fsm_state s = STATE_STOWED then
        let s2 = snd (joints_at TILT (snd (joints_at PAN s)));
            new_p = proposed_pan g s; new_t = proposed_tilt g s
        in if new_t < K_TILT_MIN \<or> new_t > K_TILT_MAX
           then snd (Result R (RESPONSE_BAD_TILT_VALUE R) True s2)
           else if new_p < K_PAN_MIN \<or> new_p > K_PAN_MAX
           then snd (Result R (RESPONSE_BAD_PAN_VALUE R) True s2)
           else if new_t > K_TILT_SAFE \<and> \<bar>new_p - K_PAN_STOW\<bar> > double_0_1
           then snd (Result R (RESPONSE_COLLISION_AVOIDED R) True s2)
           else fsm_Update R GOAL_MOVE
                  (joints_assign TILT (\<lambda>j. j\<lparr>goal := new_t\<rparr>)
                    (joints_assign PAN (\<lambda>j. j\<lparr>goal := new_p\<rparr>) s2))
      else snd (Result R (RESPONSE_NOT_ALLOWED R) True s))"

text \<open>
  Two nodelets that differ at most by entries that \<open>operator[]\<close> inserted in the joint
  table; and the nodelet that a rejection \<open>Result(code, true)\<close> leaves behind.
\<close>

definition same_but_table :: "ArmNodelet \<Rightarrow> ArmNodelet \<Rightarrow> bool" where
  "same_but_table s0 s \<longleftrightarrow>
     sent s0 = sent s \<and> fsm_state s0 = fsm_state s
   \<and> (\<forall>t. fst (joints_at t s0) = fst (joints_at t s))"

definition rejected :: "RESPONSE \<Rightarrow> int \<Rightarrow> ArmNodelet \<Rightarrow> ArmNodelet \<Rightarrow> bool" where
  "rejected R code s s' \<longleftrightarrow>
     (\<exists>s0. s' = snd (Result R code True s0) \<and> same_but_table s0 s)"

text \<open>Commands with the given arguments, for the examples.\<close>

definition gripper_set_example :: "real \<Rightarrow> ArmGoal" where
  "gripper_set_example x = \<lparr>command = GRIPPER_SET, pan = 0, tilt = 0, gripper = x\<rparr>"

definition move_example :: "real \<Rightarrow> real \<Rightarrow> ArmGoal" where
  "move_example p t = \<lparr>command = ARM_MOVE, pan = p, tilt = t, gripper = 0\<rparr>"

text \<open>
  The first half of \<open>JointStateCallback\<close>: the samples that the loop collects from a
  message, and the nodelet once the values are stored and the watchdog timer restarted.
\<close>

definition telemetry_samples :: "JointStateEntry list \<Rightarrow> ArmNodelet \<Rightarrow> JointSample list" where
  "telemetry_samples msg s = fst (JointStateCallback_loop msg [] s)"

definition after_telemetry :: "JointStateEntry list \<Rightarrow> ArmNodelet \<Rightarrow> ArmNodelet" where
  "after_telemetry msg s =
     (let s1 = snd (JointStateCallback_loop msg [] s)
      in emit [TimerWatchdogStop, TimerWatchdogStart (timeout_watchdog s1)] s1)"

text \<open>
  \<open>JointStateCallback\<close>, on a message \<open>msg\<close> in a nodelet \<open>s\<close>, cancels the goal timer and
  raises \<open>event\<close> for joint \<open>j\<close> exactly under the condition \<open>c\<close>. This says three things.
  When \<open>c\<close> holds the callback stops the goal timer, delivers the event and publishes the
  samples; when it does not, it only publishes the samples. A stop of the goal timer is
  among the messages that the callback sends exactly when \<open>c\<close> holds. The state that the
  callback leaves differs from the one it found exactly when \<open>c\<close> holds.
\<close>

definition completes_when ::
  "RESPONSE \<Rightarrow> JointStateEntry list \<Rightarrow> ArmNodelet \<Rightarrow> JointType \<Rightarrow> Event \<Rightarrow> bool \<Rightarrow> bool" where
  "completes_when R msg s j event c \<longleftrightarrow>
     (let s2 = snd (joints_at j (after_telemetry msg s));
          s' = JointStateCallback R msg s
      in s' = JointStateCallback_publish (telemetry_samples msg s)
                (if c then fsm_Update R event (emit [TimerGoalStop] s2) else s2)
       \<and> (TimerGoalStop \<in> set (drop (length (sent s)) (sent s')) \<longleftrightarrow> c)
       \<and> (fsm_state s' \<noteq> fsm_state s \<longleftrightarrow> c))"

text \<open>A transition that leaves the current state and only adds to what was sent.\<close>

definition advances :: "RESPONSE \<Rightarrow> Event \<Rightarrow> ArmNodelet \<Rightarrow> bool" where
  "advances R event s \<longleftrightarrow>
     fsm_state (fsm_Update R event s) \<noteq> fsm_state s
   \<and> (\<exists>xs. sent (fsm_Update R event s) = sent s @ xs)"

text \<open>A message with a single entry, for the examples.\<close>

definition telemetry_example :: "string \<Rightarrow> real \<Rightarrow> JointStateEntry list" where
  "telemetry_example n x =
     [\<lparr>msg_name = n, msg_position = x, msg_velocity = 0, msg_effort = 0\<rparr>]"

definition stow_example :: ArmGoal where
  "stow_example = \<lparr>command = ARM_STOW, pan = 0, tilt = 0, gripper = 0\<rparr>"

section \<open>Basic facts\<close>

lemmas K_defs =
  K_PAN_OFFSET_def K_PAN_MIN_def K_PAN_MAX_def K_PAN_STOW_def K_PAN_DEPLOY_def
  K_TILT_OFFSET_def K_TILT_MIN_def K_TILT_MAX_def K_TILT_STOW_def K_TILT_DEPLOY_def
  K_TILT_SAFE_def K_GRIPPER_STOW_def K_GRIPPER_DEPLOY_def K_GRIPPER_OPEN_def
  K_GRIPPER_CLOSE_def K_GRIPPER_CAL_def

lemma fst_joints_at:
  "fst (joints_at t s) = (case joints s t of Some j \<Rightarrow> j | None \<Rightarrow> JointInfo_init)"
  by (simp add: joints_at_def split: option.splits)

lemma joints_at_fields [simp]:
  "fsm_state (snd (joints_at t s)) = fsm_state s"
  "sent (snd (joints_at t s)) = sent s"
  "dictionary (snd (joints_at t s)) = dictionary s"
  "timeout_goal (snd (joints_at t s)) = timeout_goal s"
  "timeout_watchdog (snd (joints_at t s)) = timeout_watchdog s"
  by (simp_all add: joints_at_def split: option.splits)

lemma joints_snd_joints_at:
  "joints (snd (joints_at t s)) u =
     (if u = t \<and> joints s t = None then Some JointInfo_init else joints s u)"
  by (simp add: joints_at_def split: option.splits)

lemma fst_joints_at_snd [simp]:
  "fst (joints_at t (snd (joints_at u s))) = fst (joints_at t s)"
  by (simp add: joints_at_def split: option.splits)

lemma Equal_fst:
  "fst (Equal t v s) =
     (180 - \<bar>\<bar>val (fst (joints_at t s)) - v\<bar> - 180\<bar> < tol (fst (joints_at t s)))"
  by (simp add: Equal_def case_prod_beta)

lemma Equal_snd [simp]: "snd (Equal t v s) = snd (joints_at t s)"
  by (simp add: Equal_def case_prod_beta)

lemma IsStowed_fst:
  "fst (IsStowed s) \<longleftrightarrow> fst (Equal PAN K_PAN_STOW s) \<and> fst (Equal TILT K_TILT_STOW s)"
  by (simp add: IsStowed_def case_prod_beta Equal_fst)

lemma IsStowed_snd:
  "snd (IsStowed s) =
     (if fst (Equal PAN K_PAN_STOW s) then snd (joints_at TILT (snd (joints_at PAN s)))
      else snd (joints_at PAN s))"
  by (simp add: IsStowed_def case_prod_beta)

lemma emit_fields [simp]:
  "fsm_state (emit xs s) = fsm_state s"
  "sent (emit xs s) = sent s @ xs"
  "joints (emit xs s) = joints s"
  "dictionary (emit xs s) = dictionary s"
  "timeout_goal (emit xs s) = timeout_goal s"
  "timeout_watchdog (emit xs s) = timeout_watchdog s"
  by (simp_all add: emit_def)

lemma joints_at_emit [simp]:
  "fst (joints_at t (emit xs s)) = fst (joints_at t s)"
  by (simp add: fst_joints_at)

lemma snap_fields [simp]:
  "fsm_state (snap s) = fsm_state s"
  "sent (snap s) = sent s"
  "joints (snap s) t = map_option (\<lambda>j. j\<lparr>goal := val j\<rparr>) (joints s t)"
  "dictionary (snap s) = dictionary s"
  "timeout_goal (snap s) = timeout_goal s"
  "timeout_watchdog (snap s) = timeout_watchdog s"
  by (simp_all add: snap_def)

lemma Result_unfold:
  "Result R code send s =
     (let s2 = (if tracking (fsm_state s) \<or> send
                then emit [SendResult (action_state code) code] (snap s) else snap s)
      in if code = RESPONSE_COMMUNICATION_ERROR R then (STATE_INITIALIZING, s2)
         else (if fst (IsStowed s2) then STATE_STOWED else STATE_DEPLOYED, snd (IsStowed s2)))"
  by (simp add: Result_def Let_def snap_def case_prod_beta bool.case_eq_if)

lemma Equal_fst_snap [simp]: "fst (Equal t v (snap s)) = fst (Equal t v s)"
  by (simp add: Equal_fst fst_joints_at JointInfo_init_def split: option.splits)

lemma Equal_fst_emit [simp]: "fst (Equal t v (emit xs s)) = fst (Equal t v s)"
  by (simp add: Equal_fst)

lemma IsStowed_fields [simp]:
  "fsm_state (snd (IsStowed s)) = fsm_state s"
  "sent (snd (IsStowed s)) = sent s"
  "dictionary (snd (IsStowed s)) = dictionary s"
  "timeout_goal (snd (IsStowed s)) = timeout_goal s"
  "timeout_watchdog (snd (IsStowed s)) = timeout_watchdog s"
  by (simp_all add: IsStowed_snd)

lemma Result_fst:
  "fst (Result R code send s) =
     (if code = RESPONSE_COMMUNICATION_ERROR R then STATE_INITIALIZING
      else if fst (Equal PAN K_PAN_STOW s) \<and> fst (Equal TILT K_TILT_STOW s)
           then STATE_STOWED else STATE_DEPLOYED)"
  by (auto simp: Result_unfold Let_def IsStowed_fst)

lemma Result_fields [simp]:
  "fsm_state (snd (Result R code send s)) = fsm_state s"
  "dictionary (snd (Result R code send s)) = dictionary s"
  "timeout_goal (snd (Result R code send s)) = timeout_goal s"
  "timeout_watchdog (snd (Result R code send s)) = timeout_watchdog s"
  by (simp_all add: Result_unfold Let_def)

lemma Result_sent:
  "sent (snd (Result R code send s)) =
     sent s @ (if tracking (fsm_state s) \<or> send
               then [SendResult (action_state code) code] else [])"
  by (simp add: Result_unfold Let_def)

lemma joints_IsStowed:
  "joints (snd (IsStowed s)) t = Some j \<Longrightarrow> joints s t = Some j \<or> j = JointInfo_init"
  by (auto simp: IsStowed_snd joints_snd_joints_at split: if_splits)

lemma joints_IsStowed_mono:
  "joints s t = Some j \<Longrightarrow> joints (snd (IsStowed s)) t = Some j"
  by (auto simp: IsStowed_snd joints_snd_joints_at split: if_splits)

lemma Result_joints_snapped:
  "joints (snd (Result R code send s)) t = Some j \<Longrightarrow> goal j = val j"
  by (auto simp: Result_unfold Let_def JointInfo_init_def split: if_splits dest!: joints_IsStowed)

lemma Result_joints_kept:
  "joints s t = Some j \<Longrightarrow> joints (snd (Result R code send s)) t = Some (j\<lparr>goal := val j\<rparr>)"
  by (auto simp: Result_unfold Let_def intro!: joints_IsStowed_mono)

lemma nodelet_example_fields [simp]:
  "fsm_state (nodelet_example st p t g) = st"
  "sent (nodelet_example st p t g) = []"
  "timeout_goal (nodelet_example st p t g) = 10"
  "timeout_watchdog (nodelet_example st p t g) = 5"
  "joints (nodelet_example st p t g) PAN = Some (joint_example ''arm_pan'' ''pan'' p 45 0)"
  "joints (nodelet_example st p t g) TILT = Some (joint_example ''arm_tilt'' ''tilt'' t 60 90)"
  "joints (nodelet_example st p t g) GRIPPER =
     Some (joint_example ''arm_gripper'' ''gripper'' g 20 20)"
  by (simp_all add: nodelet_example_def)

lemma joint_example_fields [simp]:
  "name (joint_example n g v gl off) = n"
  "generic (joint_example n g v gl off) = g"
  "val (joint_example n g v gl off) = v"
  "goal (joint_example n g v gl off) = gl"
  "tol (joint_example n g v gl off) = 3"
  "offset (joint_example n g v gl off) = off"
  "scale (joint_example n g v gl off) = 2"
  "joint_example n g v gl off\<lparr>goal := x\<rparr> = joint_example n g v x off"
  "joint_example n g v gl off\<lparr>val := y\<rparr> = joint_example n g y gl off"
  by (simp_all add: joint_example_def)

lemma R_example_fields [simp]:
  "RESPONSE_SUCCESS R_example = 1"
  "RESPONSE_PAN_FAILED R_example = - 1"
  "RESPONSE_TILT_FAILED R_example = - 2"
  "RESPONSE_GRIPPER_FAILED R_example = - 3"
  "RESPONSE_CALIBRATE_FAILED R_example = - 4"
  "RESPONSE_BAD_TILT_VALUE R_example = - 5"
  "RESPONSE_BAD_PAN_VALUE R_example = - 6"
  "RESPONSE_BAD_GRIPPER_VALUE R_example = - 7"
  "RESPONSE_COLLISION_AVOIDED R_example = - 8"
  "RESPONSE_NEED_TO_CALIBRATE R_example = - 9"
  "RESPONSE_INVALID_COMMAND R_example = - 10"
  "RESPONSE_NOT_ALLOWED R_example = - 11"
  "RESPONSE_COMMUNICATION_ERROR R_example = - 12"
  by (simp_all add: R_example_def)

lemma joints_assign_fields [simp]:
  "fsm_state (joints_assign t f s) = fsm_state s"
  "sent (joints_assign t f s) = sent s"
  "dictionary (joints_assign t f s) = dictionary s"
  "timeout_goal (joints_assign t f s) = timeout_goal s"
  "timeout_watchdog (joints_assign t f s) = timeout_watchdog s"
  by (simp_all add: joints_assign_def case_prod_beta)

lemma joints_joints_assign:
  "joints (joints_assign t f s) u =
     (if u = t then Some (f (fst (joints_at t s))) else joints s u)"
  by (simp add: joints_assign_def case_prod_beta joints_snd_joints_at)

lemma fst_joints_at_assign:
  "fst (joints_at u (joints_assign t f s)) =
     (if u = t then f (fst (joints_at t s)) else fst (joints_at u s))"
  by (simp add: fst_joints_at [of u] joints_joints_assign)

lemma fst_joints_at_snap:
  "fst (joints_at t (snap s)) = (fst (joints_at t s))\<lparr>goal := val (fst (joints_at t s))\<rparr>"
  by (simp add: fst_joints_at JointInfo_init_def split: option.splits)

lemma fst_joints_at_IsStowed [simp]:
  "fst (joints_at t (snd (IsStowed s))) = fst (joints_at t s)"
  by (simp add: IsStowed_snd)

lemma Result_entry:
  "fst (joints_at t (snd (Result R code send s))) =
     (fst (joints_at t s))\<lparr>goal := val (fst (joints_at t s))\<rparr>"
  by (simp add: Result_unfold Let_def fst_joints_at_snap)

lemma Arm_fst: "fst (Arm t s) \<longleftrightarrow> joints s t \<noteq> None"
  by (simp add: Arm_def split: option.splits)

lemma Arm_snd:
  "snd (Arm t s) =
     (case joints s t of
        None \<Rightarrow> s
      | Some j \<Rightarrow>
          emit [PublishJointGoal (name j) (driver_position j),
                TimerGoalStop, TimerGoalStart (timeout_goal s)] s)"
  by (simp add: Arm_def split: option.splits)

lemma Arm_fields [simp]:
  "fsm_state (snd (Arm t s)) = fsm_state s"
  "joints (snd (Arm t s)) = joints s"
  "dictionary (snd (Arm t s)) = dictionary s"
  "timeout_goal (snd (Arm t s)) = timeout_goal s"
  "timeout_watchdog (snd (Arm t s)) = timeout_watchdog s"
  by (simp_all add: Arm_snd split: option.splits)

lemma UpdateCallback_fields [simp]:
  "fsm_state (UpdateCallback st ev s) = fsm_state s"
  "dictionary (UpdateCallback st ev s) = dictionary s"
  "timeout_goal (UpdateCallback st ev s) = timeout_goal s"
  "timeout_watchdog (UpdateCallback st ev s) = timeout_watchdog s"
  "fst (joints_at t (UpdateCallback st ev s)) = fst (joints_at t s)"
  by (simp_all add: UpdateCallback_def case_prod_beta Let_def)

lemma UpdateCallback_sent:
  "\<exists>gs js. sent (UpdateCallback st ev s) = sent s @ [PublishState st, PublishArmState gs js]"
  by (simp add: UpdateCallback_def case_prod_beta Let_def)

lemma fsm_state_update_entry [simp]:
  "fst (joints_at t (s\<lparr>fsm_state := st\<rparr>)) = fst (joints_at t s)"
  by (simp add: fst_joints_at)

lemma fsm_Update_GOAL_STOW:
  "fsm_state s = STATE_DEPLOYED \<Longrightarrow>
   fsm_Update R GOAL_STOW s =
     (let s1 = snd (RequiresClosing s);
          r = (if fst (RequiresClosing s)
               then if fst (Arm GRIPPER s1) then (STATE_STOWING_SETTING, snd (Arm GRIPPER s1))
                    else Result R (RESPONSE_GRIPPER_FAILED R) False (snd (Arm GRIPPER s1))
               else if fst (Arm PAN s1) then (STATE_STOWING_PANNING, snd (Arm PAN s1))
                    else Result R (RESPONSE_PAN_FAILED R) False (snd (Arm PAN s1)))
      in UpdateCallback (fst r) GOAL_STOW ((snd r)\<lparr>fsm_state := fst r\<rparr>))"
  by (simp add: fsm_Update_def fsm_table_def fsm_Add_def case_prod_beta bool.case_eq_if Let_def)

lemma RequiresClosing_fst:
  "fst (RequiresClosing s) \<longleftrightarrow>
     \<not> fst (Equal GRIPPER K_GRIPPER_CAL s) \<and> \<not> fst (Equal GRIPPER K_GRIPPER_STOW s)"
  by (simp add: RequiresClosing_def case_prod_beta Equal_fst)

lemma RequiresClosing_snd [simp]: "snd (RequiresClosing s) = snd (joints_at GRIPPER s)"
  by (simp add: RequiresClosing_def case_prod_beta joints_at_def split: option.splits)

lemma joints_at_present: "joints (snd (joints_at t s)) t = Some (fst (joints_at t s))"
  by (simp add: joints_at_def split: option.splits)

lemma joints_at_other: "joints s u = Some j \<Longrightarrow> joints (snd (joints_at t s)) u = Some j"
  by (auto simp: joints_at_def split: option.splits)

lemma UpdateCallback_state [simp]:
  "fsm_state (UpdateCallback st ev (s\<lparr>fsm_state := st'\<rparr>)) = st'"
  by simp

lemma UpdateCallback_sent_prefix:
  "\<exists>rest. sent (UpdateCallback st ev (s\<lparr>fsm_state := st'\<rparr>)) = sent s @ rest"
  using UpdateCallback_sent [of st ev "s\<lparr>fsm_state := st'\<rparr>"] by auto

text \<open>The pairs of a state and an event under which the constructor registers a handler.\<close>

lemma fsm_table_dom:
  "fsm_table R (st, ev) \<noteq> None \<longleftrightarrow>
     (st, ev) \<in> {(STATE_INITIALIZING, READY), (STATE_UNKNOWN, STOWED), (STATE_UNKNOWN, DEPLOYED),
       (STATE_STOWED, DEPLOYED), (STATE_DEPLOYED, STOWED), (STATE_STOWED, GOAL_DEPLOY),
       (STATE_DEPLOYING_PANNING, PAN_COMPLETE), (STATE_DEPLOYING_TILTING, TILT_COMPLETE),
       (STATE_DEPLOYED, GOAL_STOW), (STATE_STOWING_SETTING, GRIPPER_COMPLETE),
       (STATE_STOWING_SETTING, TIMEOUT), (STATE_STOWING_SETTING, GOAL_CANCEL),
       (STATE_STOWING_PANNING, PAN_COMPLETE), (STATE_STOWING_PANNING, TIMEOUT),
       (STATE_STOWING_PANNING, GOAL_CANCEL), (STATE_STOWING_TILTING, TILT_COMPLETE),
       (STATE_STOWING_TILTING, TIMEOUT), (STATE_STOWING_TILTING, GOAL_CANCEL),
       (STATE_STOWED, GOAL_MOVE), (STATE_DEPLOYED, GOAL_MOVE), (STATE_PANNING, PAN_COMPLETE),
       (STATE_PANNING, TIMEOUT), (STATE_PANNING, GOAL_CANCEL), (STATE_TILTING, TILT_COMPLETE),
       (STATE_TILTING, TIMEOUT), (STATE_TILTING, GOAL_CANCEL), (STATE_DEPLOYED, GOAL_SET),
       (STATE_SETTING, GRIPPER_COMPLETE), (STATE_SETTING, TIMEOUT), (STATE_SETTING, GOAL_CANCEL),
       (STATE_DEPLOYED, GOAL_CALIBRATE), (STATE_CALIBRATING, CALIBRATE_COMPLETE),
       (STATE_CALIBRATING, TIMEOUT), (STATE_CALIBRATING, GOAL_CANCEL)}"
  by (cases st; cases ev; simp add: fsm_table_def fsm_Add_def)

lemma fsm_Update_GOAL_CALIBRATE:
  "fsm_state s = STATE_DEPLOYED \<Longrightarrow>
   fsm_Update R GOAL_CALIBRATE s =
     (let r = (if fst (Arm GRIPPER s) then (STATE_CALIBRATING, snd (Arm GRIPPER s))
               else Result R (RESPONSE_CALIBRATE_FAILED R) False (snd (Arm GRIPPER s)))
      in UpdateCallback (fst r) GOAL_CALIBRATE ((snd r)\<lparr>fsm_state := fst r\<rparr>))"
  by (simp add: fsm_Update_def fsm_table_def fsm_Add_def case_prod_beta bool.case_eq_if Let_def)

lemma fst_joints_at_Arm [simp]: "fst (joints_at t (snd (Arm u s))) = fst (joints_at t s)"
  by (simp add: fst_joints_at)

lemma move_example_fields [simp]:
  "command (move_example p t) = ARM_MOVE"
  "pan (move_example p t) = p"
  "tilt (move_example p t) = t"
  by (simp_all add: move_example_def)

lemma GoalCallback_ARM_PAN: "command g = ARM_PAN \<Longrightarrow> GoalCallback R g s = move_body R g s"
  by (simp add: GoalCallback_def move_body_def Let_def case_prod_beta proposed_pan_def
      proposed_tilt_def)

lemma GoalCallback_ARM_TILT: "command g = ARM_TILT \<Longrightarrow> GoalCallback R g s = move_body R g s"
  by (simp add: GoalCallback_def move_body_def Let_def case_prod_beta proposed_pan_def
      proposed_tilt_def)

lemma GoalCallback_ARM_MOVE: "command g = ARM_MOVE \<Longrightarrow> GoalCallback R g s = move_body R g s"
  by (simp add: GoalCallback_def move_body_def Let_def case_prod_beta proposed_pan_def
      proposed_tilt_def)

lemma rejection_move:
  "command g = ARM_PAN \<or> command g = ARM_TILT \<or> command g = ARM_MOVE \<Longrightarrow>
     rejection R g s = move_rejection R g s"
  by (elim disjE; simp add: rejection_def move_rejection_def Let_def split del: if_split
      cong: if_weak_cong)

lemma rejectedI: "same_but_table s0 s \<Longrightarrow> rejected R code s (snd (Result R code True s0))"
  by (auto simp: rejected_def)

lemma same_but_table_refl [simp]: "same_but_table s s"
  by (simp add: same_but_table_def)

lemma same_but_table_joints_at [simp]:
  "same_but_table (snd (joints_at t s0)) s = same_but_table s0 s"
  by (simp add: same_but_table_def)

lemma move_rejected:
  "move_rejection R g s = Some code \<Longrightarrow> rejected R code s (move_body R g s)"
  by (auto simp: move_rejection_def move_body_def Let_def rejectedI split: if_splits)

lemma rejection_other:
  "command g = ARM_STOP \<Longrightarrow> rejection R g s = None"
  "command g = ARM_DEPLOY \<Longrightarrow>
     rejection R g s = (if fsm_state s = STATE_STOWED then None else Some (RESPONSE_NOT_ALLOWED R))"
  "command g = ARM_STOW \<Longrightarrow>
     rejection R g s = (if fsm_state s = STATE_DEPLOYED then None else Some (RESPONSE_NOT_ALLOWED R))"
  "command g = GRIPPER_CALIBRATE \<Longrightarrow>
     rejection R g s = (if fsm_state s = STATE_DEPLOYED then None else Some (RESPONSE_NOT_ALLOWED R))"
  "command g = COMMAND_OTHER \<Longrightarrow> rejection R g s = Some (RESPONSE_INVALID_COMMAND R)"
  by (simp_all add: rejection_def Let_def)

lemma rejection_GRIPPER_SET:
  "command g = GRIPPER_SET \<Longrightarrow>
     rejection R g s =
       (if val (fst (joints_at GRIPPER s)) < 0 then Some (RESPONSE_NEED_TO_CALIBRATE R)
        else if fsm_state s = STATE_DEPLOYED then
          if gripper g < K_GRIPPER_CLOSE \<or> gripper g > K_GRIPPER_OPEN
          then Some (RESPONSE_BAD_GRIPPER_VALUE R) else None
        else Some (RESPONSE_NOT_ALLOWED R))"
  by (simp add: rejection_def Let_def split del: if_split cong: if_weak_cong)

lemma rejection_GRIPPER_OPEN_CLOSE:
  "command g = GRIPPER_OPEN \<or> command g = GRIPPER_CLOSE \<Longrightarrow>
     rejection R g s =
       (if val (fst (joints_at GRIPPER s)) < 0 then Some (RESPONSE_NEED_TO_CALIBRATE R)
        else if fsm_state s = STATE_DEPLOYED then None
        else Some (RESPONSE_NOT_ALLOWED R))"
  by (elim disjE; simp add: rejection_def Let_def split del: if_split cong: if_cong)

lemmas rejection_gripper = rejection_GRIPPER_SET rejection_GRIPPER_OPEN_CLOSE

lemma GoalCallback_other:
  "command g = ARM_DEPLOY \<Longrightarrow> fsm_state s \<noteq> STATE_STOWED \<Longrightarrow>
     GoalCallback R g s = snd (Result R (RESPONSE_NOT_ALLOWED R) True s)"
  "command g = ARM_STOW \<Longrightarrow> fsm_state s \<noteq> STATE_DEPLOYED \<Longrightarrow>
     GoalCallback R g s = snd (Result R (RESPONSE_NOT_ALLOWED R) True s)"
  "command g = GRIPPER_CALIBRATE \<Longrightarrow> fsm_state s \<noteq> STATE_DEPLOYED \<Longrightarrow>
     GoalCallback R g s = snd (Result R (RESPONSE_NOT_ALLOWED R) True s)"
  "command g = COMMAND_OTHER \<Longrightarrow>
     GoalCallback R g s = snd (Result R (RESPONSE_INVALID_COMMAND R) True s)"
  by (simp_all add: GoalCallback_def Let_def)

lemma GoalCallback_gripper:
  "command g = GRIPPER_SET \<or> command g = GRIPPER_OPEN \<or> command g = GRIPPER_CLOSE \<Longrightarrow>
   val (fst (joints_at GRIPPER s)) < 0 \<Longrightarrow>
     GoalCallback R g s =
       snd (Result R (RESPONSE_NEED_TO_CALIBRATE R) True (snd (joints_at GRIPPER s)))"
  "command g = GRIPPER_SET \<or> command g = GRIPPER_OPEN \<or> command g = GRIPPER_CLOSE \<Longrightarrow>
   \<not> val (fst (joints_at GRIPPER s)) < 0 \<Longrightarrow> fsm_state s \<noteq> STATE_DEPLOYED \<Longrightarrow>
     GoalCallback R g s =
       snd (Result R (RESPONSE_NOT_ALLOWED R) True (snd (joints_at GRIPPER s)))"
  "command g = GRIPPER_SET \<Longrightarrow>
   \<not> val (fst (joints_at GRIPPER s)) < 0 \<Longrightarrow> fsm_state s = STATE_DEPLOYED \<Longrightarrow>
   gripper g < K_GRIPPER_CLOSE \<or> gripper g > K_GRIPPER_OPEN \<Longrightarrow>
     GoalCallback R g s =
       snd (Result R (RESPONSE_BAD_GRIPPER_VALUE R) True (snd (joints_at GRIPPER s)))"
  by (auto simp: GoalCallback_def Let_def case_prod_beta)

lemma rejection_rejected:
  assumes "rejection R g s = Some code"
  shows "rejected R code s (GoalCallback R g s)"
proof (cases "command g")
  case ARM_STOP
  then show ?thesis using assms by (simp add: rejection_other)
next
  case ARM_DEPLOY
  then show ?thesis
    using assms by (auto simp: rejection_other GoalCallback_other rejectedI split: if_splits)
next
  case ARM_STOW
  then show ?thesis
    using assms by (auto simp: rejection_other GoalCallback_other rejectedI split: if_splits)
next
  case GRIPPER_CALIBRATE
  then show ?thesis
    using assms by (auto simp: rejection_other GoalCallback_other rejectedI split: if_splits)
next
  case COMMAND_OTHER
  then show ?thesis
    using assms by (auto simp: rejection_other GoalCallback_other rejectedI split: if_splits)
next
  case ARM_PAN
  then show ?thesis
    using assms by (simp add: rejection_move GoalCallback_ARM_PAN move_rejected)
next
  case ARM_TILT
  then show ?thesis
    using assms by (simp add: rejection_move GoalCallback_ARM_TILT move_rejected)
next
  case ARM_MOVE
  then show ?thesis
    using assms by (simp add: rejection_move GoalCallback_ARM_MOVE move_rejected)
next
  case GRIPPER_SET
  then show ?thesis
    using assms by (auto simp: rejection_gripper GoalCallback_gripper rejectedI split: if_splits)
next
  case GRIPPER_OPEN
  then show ?thesis
    using assms by (auto simp: rejection_gripper GoalCallback_gripper rejectedI split: if_splits)
next
  case GRIPPER_CLOSE
  then show ?thesis
    using assms by (auto simp: rejection_gripper GoalCallback_gripper rejectedI split: if_splits)
qed

lemma rejected_effect:
  assumes "rejected R code s s'"
  shows "sent s' = sent s @ [SendResult (action_state code) code]"
    and "fsm_state s' = fsm_state s"
    and "fst (joints_at t s') = (fst (joints_at t s))\<lparr>goal := val (fst (joints_at t s))\<rparr>"
  using assms by (auto simp: rejected_def same_but_table_def Result_sent Result_entry)

lemma move_rejection_rejected:
  assumes "command g = ARM_PAN \<or> command g = ARM_TILT \<or> command g = ARM_MOVE"
    and "move_rejection R g s = Some code"
  shows "rejected R code s (GoalCallback R g s)"
  using assms rejection_rejected [of R g s code] by (simp add: rejection_move)

lemma JointStateCallback_loop_fields:
  "fsm_state (snd (JointStateCallback_loop msg samples s)) = fsm_state s
   \<and> sent (snd (JointStateCallback_loop msg samples s)) = sent s
   \<and> dictionary (snd (JointStateCallback_loop msg samples s)) = dictionary s
   \<and> timeout_goal (snd (JointStateCallback_loop msg samples s)) = timeout_goal s
   \<and> timeout_watchdog (snd (JointStateCallback_loop msg samples s)) = timeout_watchdog s"
proof (induction msg arbitrary: samples s)
  case Nil
  then show ?case by simp
next
  case (Cons m ms)
  show ?case
  proof (cases "dictionary s (msg_name m)")
    case None
    then show ?thesis using Cons.IH [of samples s] by simp
  next
    case (Some g)
    then show ?thesis
      by (simp add: Let_def case_prod_beta Cons.IH)
  qed
qed

lemma after_telemetry_fields [simp]:
  "fsm_state (after_telemetry msg s) = fsm_state s"
  "sent (after_telemetry msg s) =
     sent s @ [TimerWatchdogStop, TimerWatchdogStart (timeout_watchdog s)]"
  by (simp_all add: after_telemetry_def Let_def JointStateCallback_loop_fields)

lemma joints_at_idem [simp]: "snd (joints_at t (snd (joints_at t s))) = snd (joints_at t s)"
  by (simp add: joints_at_def split: option.splits)

lemma JointStateCallback_publish_fields [simp]:
  "fsm_state (JointStateCallback_publish samples s) = fsm_state s"
  "sent (JointStateCallback_publish samples s) =
     sent s @ PublishJointSample samples #
       (if tracking (fsm_state s)
        then [SendFeedback (fsm_state s) (val (fst (joints_at PAN s)))
                (val (fst (joints_at TILT s))) (val (fst (joints_at GRIPPER s)))]
        else [])"
  by (simp_all add: JointStateCallback_publish_def Let_def case_prod_beta)

lemma Result_fst_cases:
  "fst (Result R code send s) = STATE_INITIALIZING
   \<or> fst (Result R code send s) = STATE_STOWED
   \<or> fst (Result R code send s) = STATE_DEPLOYED"
  by (simp add: Result_fst)

lemma Arm_sent_prefix: "\<exists>xs. sent (snd (Arm t s)) = sent s @ xs"
  by (simp add: Arm_snd split: option.splits)

lemma Result_sent_prefix: "\<exists>xs. sent (snd (Result R code send s)) = sent s @ xs"
  by (simp add: Result_sent)

lemma advances_Result:
  assumes "tracking (fsm_state s)"
    and "fsm_Update R event s =
      UpdateCallback (fst (Result R code False s)) event
        ((snd (Result R code False s))\<lparr>fsm_state := fst (Result R code False s)\<rparr>)"
  shows "advances R event s"
proof -
  obtain xs where "sent (snd (Result R code False s)) = sent s @ xs"
    using Result_sent_prefix by blast
  moreover obtain ys where "sent (fsm_Update R event s) = sent (snd (Result R code False s)) @ ys"
    unfolding assms(2) using UpdateCallback_sent_prefix by blast
  ultimately have "\<exists>zs. sent (fsm_Update R event s) = sent s @ zs"
    by simp
  moreover have "fsm_state (fsm_Update R event s) \<noteq> fsm_state s"
    using assms(1) Result_fst_cases [of R code False s]
    unfolding assms(2) by (auto simp: tracking_def)
  ultimately show ?thesis
    by (simp add: advances_def)
qed

lemma advances_Arm:
  assumes "tracking (fsm_state s)" and "st \<noteq> fsm_state s"
    and "fsm_Update R event s =
      (let r = (if fst (Arm t s) then (st, snd (Arm t s))
                else Result R code False (snd (Arm t s)))
       in UpdateCallback (fst r) event ((snd r)\<lparr>fsm_state := fst r\<rparr>))"
  shows "advances R event s"
proof -
  let ?r = "if fst (Arm t s) then (st, snd (Arm t s)) else Result R code False (snd (Arm t s))"
  obtain xs where xs: "sent (snd (Arm t s)) = sent s @ xs"
    using Arm_sent_prefix by blast
  obtain ws where "sent (snd (Result R code False (snd (Arm t s)))) = sent (snd (Arm t s)) @ ws"
    using Result_sent_prefix by blast
  then have "\<exists>zs. sent (snd ?r) = sent s @ zs"
    using xs by simp
  moreover obtain ys where "sent (fsm_Update R event s) = sent (snd ?r) @ ys"
    unfolding assms(3) Let_def using UpdateCallback_sent_prefix by blast
  ultimately have "\<exists>zs. sent (fsm_Update R event s) = sent s @ zs"
    by auto
  moreover have "fsm_state (fsm_Update R event s) \<noteq> fsm_state s"
    using assms(1,2) Result_fst_cases [of R code False "snd (Arm t s)"]
    unfolding assms(3) Let_def by (auto simp: tracking_def)
  ultimately show ?thesis
    by (simp add: advances_def)
qed

lemma fsm_Update_PAN_COMPLETE:
  "fsm_state s = STATE_PANNING \<or> fsm_state s = STATE_STOWING_PANNING
     \<or> fsm_state s = STATE_DEPLOYING_PANNING \<Longrightarrow>
   fsm_Update R PAN_COMPLETE s =
     (let r = (if fst (Arm TILT s)
               then (if fsm_state s = STATE_PANNING then STATE_TILTING
                     else if fsm_state s = STATE_STOWING_PANNING then STATE_STOWING_TILTING
                     else STATE_DEPLOYING_TILTING, snd (Arm TILT s))
               else Result R (RESPONSE_TILT_FAILED R) False (snd (Arm TILT s)))
      in UpdateCallback (fst r) PAN_COMPLETE ((snd r)\<lparr>fsm_state := fst r\<rparr>))"
  by (elim disjE; simp add: fsm_Update_def fsm_table_def fsm_Add_def case_prod_beta
      bool.case_eq_if Let_def)

lemma fsm_Update_TILT_COMPLETE:
  "fsm_state s = STATE_TILTING \<or> fsm_state s = STATE_STOWING_TILTING
     \<or> fsm_state s = STATE_DEPLOYING_TILTING \<Longrightarrow>
   fsm_Update R TILT_COMPLETE s =
     UpdateCallback (fst (Result R (RESPONSE_SUCCESS R) False s)) TILT_COMPLETE
       ((snd (Result R (RESPONSE_SUCCESS R) False s))
          \<lparr>fsm_state := fst (Result R (RESPONSE_SUCCESS R) False s)\<rparr>)"
  by (elim disjE; simp add: fsm_Update_def fsm_table_def fsm_Add_def case_prod_beta)

lemma fsm_Update_GRIPPER_COMPLETE_SETTING:
  "fsm_state s = STATE_SETTING \<Longrightarrow>
   fsm_Update R GRIPPER_COMPLETE s =
     UpdateCallback (fst (Result R (RESPONSE_SUCCESS R) False s)) GRIPPER_COMPLETE
       ((snd (Result R (RESPONSE_SUCCESS R) False s))
          \<lparr>fsm_state := fst (Result R (RESPONSE_SUCCESS R) False s)\<rparr>)"
  by (simp add: fsm_Update_def fsm_table_def fsm_Add_def case_prod_beta)

lemma fsm_Update_GRIPPER_COMPLETE_STOWING:
  "fsm_state s = STATE_STOWING_SETTING \<Longrightarrow>
   fsm_Update R GRIPPER_COMPLETE s =
     (let r = (if fst (Arm PAN s) then (STATE_STOWING_PANNING, snd (Arm PAN s))
               else Result R (RESPONSE_PAN_FAILED R) False (snd (Arm PAN s)))
      in UpdateCallback (fst r) GRIPPER_COMPLETE ((snd r)\<lparr>fsm_state := fst r\<rparr>))"
  by (simp add: fsm_Update_def fsm_table_def fsm_Add_def case_prod_beta bool.case_eq_if Let_def)

lemma fsm_Update_CALIBRATE_COMPLETE:
  "fsm_state s = STATE_CALIBRATING \<Longrightarrow>
   fsm_Update R CALIBRATE_COMPLETE s =
     UpdateCallback (fst (Result R (RESPONSE_SUCCESS R) False s)) CALIBRATE_COMPLETE
       ((snd (Result R (RESPONSE_SUCCESS R) False s))
          \<lparr>fsm_state := fst (Result R (RESPONSE_SUCCESS R) False s)\<rparr>)"
  by (simp add: fsm_Update_def fsm_table_def fsm_Add_def case_prod_beta)

lemma advances_PAN_COMPLETE:
  assumes "fsm_state s = STATE_PANNING \<or> fsm_state s = STATE_STOWING_PANNING
     \<or> fsm_state s = STATE_DEPLOYING_PANNING"
  shows "advances R PAN_COMPLETE s"
  using assms
  by (intro advances_Arm [OF _ _ fsm_Update_PAN_COMPLETE [OF assms]]) (auto simp: tracking_def)

lemma advances_TILT_COMPLETE:
  assumes "fsm_state s = STATE_TILTING \<or> fsm_state s = STATE_STOWING_TILTING
     \<or> fsm_state s = STATE_DEPLOYING_TILTING"
  shows "advances R TILT_COMPLETE s"
  using assms
  by (intro advances_Result [OF _ fsm_Update_TILT_COMPLETE [OF assms]]) (auto simp: tracking_def)

lemma advances_GRIPPER_COMPLETE:
  assumes "fsm_state s = STATE_SETTING \<or> fsm_state s = STATE_STOWING_SETTING"
  shows "advances R GRIPPER_COMPLETE s"
proof (cases "fsm_state s = STATE_SETTING")
  case True
  then show ?thesis
    by (intro advances_Result [OF _ fsm_Update_GRIPPER_COMPLETE_SETTING]) (simp_all add: tracking_def)
next
  case False
  then have st: "fsm_state s = STATE_STOWING_SETTING"
    using assms by simp
  show ?thesis
    using st
    by (intro advances_Arm [OF _ _ fsm_Update_GRIPPER_COMPLETE_STOWING [OF st]])
       (simp_all add: tracking_def)
qed

lemma advances_CALIBRATE_COMPLETE:
  assumes "fsm_state s = STATE_CALIBRATING"
  shows "advances R CALIBRATE_COMPLETE s"
  using assms
  by (intro advances_Result [OF _ fsm_Update_CALIBRATE_COMPLETE [OF assms]]) (simp add: tracking_def)

lemma Equal_fst_joints_at [simp]: "fst (Equal t v (snd (joints_at u s))) = fst (Equal t v s)"
  by (simp add: Equal_fst)

lemma completes_whenI:
  assumes eq: "JointStateCallback R msg s =
      JointStateCallback_publish (telemetry_samples msg s)
        (if c then fsm_Update R event (emit [TimerGoalStop] (snd (joints_at j (after_telemetry msg s))))
         else snd (joints_at j (after_telemetry msg s)))"
    and adv: "c \<Longrightarrow> advances R event (emit [TimerGoalStop] (snd (joints_at j (after_telemetry msg s))))"
  shows "completes_when R msg s j event c"
proof (cases c)
  case True
  let ?s3 = "emit [TimerGoalStop] (snd (joints_at j (after_telemetry msg s)))"
  from adv [OF True] obtain xs where
    st: "fsm_state (fsm_Update R event ?s3) \<noteq> fsm_state ?s3"
    and xs: "sent (fsm_Update R event ?s3) = sent ?s3 @ xs"
    by (auto simp: advances_def)
  obtain zs where "sent (JointStateCallback_publish (telemetry_samples msg s)
      (fsm_Update R event ?s3)) = sent (fsm_Update R event ?s3) @ zs"
    by simp
  then have "sent (JointStateCallback R msg s) =
      sent s @ TimerWatchdogStop # TimerWatchdogStart (timeout_watchdog s) # TimerGoalStop #
        xs @ zs"
    using True xs by (simp add: eq)
  then have "TimerGoalStop \<in> set (drop (length (sent s)) (sent (JointStateCallback R msg s)))"
    by simp
  moreover have "fsm_state (JointStateCallback R msg s) \<noteq> fsm_state s"
    using True st by (simp add: eq)
  ultimately show ?thesis
    using True eq by (simp add: completes_when_def Let_def)
next
  case False
  then show ?thesis
    using eq by (simp add: completes_when_def Let_def)
qed

lemma JointStateCallback_wait_PAN:
  assumes "telemetry_samples msg s \<noteq> []"
    and "fsm_state s = STATE_PANNING \<or> fsm_state s = STATE_STOWING_PANNING
         \<or> fsm_state s = STATE_DEPLOYING_PANNING"
  shows "JointStateCallback R msg s =
      JointStateCallback_publish (telemetry_samples msg s)
        (if fst (Equal PAN (goal (fst (joints_at PAN (after_telemetry msg s))))
                   (after_telemetry msg s))
         then fsm_Update R PAN_COMPLETE
                (emit [TimerGoalStop] (snd (joints_at PAN (after_telemetry msg s))))
         else snd (joints_at PAN (after_telemetry msg s)))"
  using assms
  by (elim disjE; simp add: JointStateCallback_def telemetry_samples_def after_telemetry_def
      Let_def case_prod_beta bool.case_eq_if JointStateCallback_loop_fields)

lemma JointStateCallback_wait_TILT:
  assumes "telemetry_samples msg s \<noteq> []"
    and "fsm_state s = STATE_TILTING \<or> fsm_state s = STATE_STOWING_TILTING
         \<or> fsm_state s = STATE_DEPLOYING_TILTING"
  shows "JointStateCallback R msg s =
      JointStateCallback_publish (telemetry_samples msg s)
        (if fst (Equal TILT (goal (fst (joints_at TILT (after_telemetry msg s))))
                   (after_telemetry msg s))
         then fsm_Update R TILT_COMPLETE
                (emit [TimerGoalStop] (snd (joints_at TILT (after_telemetry msg s))))
         else snd (joints_at TILT (after_telemetry msg s)))"
  using assms
  by (elim disjE; simp add: JointStateCallback_def telemetry_samples_def after_telemetry_def
      Let_def case_prod_beta bool.case_eq_if JointStateCallback_loop_fields)

lemma JointStateCallback_wait_GRIPPER:
  assumes "telemetry_samples msg s \<noteq> []"
    and "fsm_state s = STATE_SETTING \<or> fsm_state s = STATE_STOWING_SETTING"
  shows "JointStateCallback R msg s =
      JointStateCallback_publish (telemetry_samples msg s)
        (if fst (Equal GRIPPER (goal (fst (joints_at GRIPPER (after_telemetry msg s))))
                   (after_telemetry msg s))
         then fsm_Update R GRIPPER_COMPLETE
                (emit [TimerGoalStop] (snd (joints_at GRIPPER (after_telemetry msg s))))
         else snd (joints_at GRIPPER (after_telemetry msg s)))"
  using assms
  by (elim disjE; simp add: JointStateCallback_def telemetry_samples_def after_telemetry_def
      Let_def case_prod_beta bool.case_eq_if JointStateCallback_loop_fields)

lemma JointStateCallback_wait_CALIBRATING:
  assumes "telemetry_samples msg s \<noteq> []"
    and "fsm_state s = STATE_CALIBRATING"
  shows "JointStateCallback R msg s =
      JointStateCallback_publish (telemetry_samples msg s)
        (if \<not> fst (Equal GRIPPER K_GRIPPER_CAL (after_telemetry msg s))
         then fsm_Update R CALIBRATE_COMPLETE
                (emit [TimerGoalStop] (snd (joints_at GRIPPER (after_telemetry msg s))))
         else snd (joints_at GRIPPER (after_telemetry msg s)))"
  using assms
  by (simp add: JointStateCallback_def telemetry_samples_def after_telemetry_def
      Let_def case_prod_beta bool.case_eq_if JointStateCallback_loop_fields)

lemma nodelet_example_dictionary [simp]:
  "dictionary (nodelet_example st p t g) ''arm_pan'' = Some PAN"
  "dictionary (nodelet_example st p t g) ''arm_tilt'' = Some TILT"
  "dictionary (nodelet_example st p t g) ''arm_gripper'' = Some GRIPPER"
  by (simp_all add: nodelet_example_def)

lemma nodelet_example_entries [simp]:
  "fst (joints_at PAN (nodelet_example st p t g)) = joint_example ''arm_pan'' ''pan'' p 45 0"
  "fst (joints_at TILT (nodelet_example st p t g)) = joint_example ''arm_tilt'' ''tilt'' t 60 90"
  "fst (joints_at GRIPPER (nodelet_example st p t g)) =
     joint_example ''arm_gripper'' ''gripper'' g 20 20"
  by (simp_all add: fst_joints_at)

lemma telemetry_example_samples [simp]:
  "telemetry_samples (telemetry_example ''arm_pan'' x) (nodelet_example st p t g) \<noteq> []"
  "telemetry_samples (telemetry_example ''arm_tilt'' x) (nodelet_example st p t g) \<noteq> []"
  "telemetry_samples (telemetry_example ''arm_gripper'' x) (nodelet_example st p t g) \<noteq> []"
  by (simp_all add: telemetry_samples_def telemetry_example_def Let_def case_prod_beta)

lemma telemetry_example_entries:
  "fst (joints_at u (after_telemetry (telemetry_example ''arm_pan'' x)
       (nodelet_example st p t g))) =
     (if u = PAN then joint_example ''arm_pan'' ''pan'' (x * 2) 45 0
      else fst (joints_at u (nodelet_example st p t g)))"
  "fst (joints_at u (after_telemetry (telemetry_example ''arm_tilt'' x)
       (nodelet_example st p t g))) =
     (if u = TILT then joint_example ''arm_tilt'' ''tilt'' (x * 2 + 90) 60 90
      else fst (joints_at u (nodelet_example st p t g)))"
  "x \<noteq> - 100 \<Longrightarrow>
   fst (joints_at u (after_telemetry (telemetry_example ''arm_gripper'' x)
       (nodelet_example st p t g))) =
     (if u = GRIPPER then joint_example ''arm_gripper'' ''gripper'' (x * 2 + 20) 20 20
      else fst (joints_at u (nodelet_example st p t g)))"
  by (simp_all add: after_telemetry_def telemetry_example_def Let_def case_prod_beta
      fst_joints_at_assign K_GRIPPER_CAL_def)

lemma GOAL_STOW_event:
  assumes "fsm_state s = STATE_DEPLOYED" and "joints s PAN = Some p"
  shows "let g = fst (joints_at GRIPPER s);
             closing = (\<not> fst (Equal GRIPPER K_GRIPPER_CAL s)
                        \<and> \<not> fst (Equal GRIPPER K_GRIPPER_STOW s));
             s' = fsm_Update R GOAL_STOW s
         in fst (RequiresClosing s) = closing
          \<and> (fsm_state s' = STATE_STOWING_SETTING \<longleftrightarrow> closing)
          \<and> (closing \<longrightarrow>
               (\<exists>rest. sent s' = sent s @ PublishJointGoal (name g) (driver_position g) # rest))
          \<and> (\<not> closing \<longrightarrow>
               fsm_state s' = STATE_STOWING_PANNING
             \<and> (\<exists>rest. sent s' = sent s @ PublishJointGoal (name p) (driver_position p) # rest))"
proof -
  let ?s1 = "snd (joints_at GRIPPER s)"
  have g: "joints ?s1 GRIPPER = Some (fst (joints_at GRIPPER s))"
    by (rule joints_at_present)
  have p: "joints ?s1 PAN = Some p"
    using assms(2) by (rule joints_at_other)
  have ag: "fst (Arm GRIPPER ?s1)" and ap: "fst (Arm PAN ?s1)"
    using g p by (simp_all add: Arm_fst)
  have sg: "sent (snd (Arm GRIPPER ?s1)) =
      sent s @ [PublishJointGoal (name (fst (joints_at GRIPPER s)))
                  (driver_position (fst (joints_at GRIPPER s))),
                TimerGoalStop, TimerGoalStart (timeout_goal s)]"
    using g by (simp add: Arm_snd)
  have sp: "sent (snd (Arm PAN ?s1)) =
      sent s @ [PublishJointGoal (name p) (driver_position p),
                TimerGoalStop, TimerGoalStart (timeout_goal s)]"
    using p by (simp add: Arm_snd)
  show ?thesis
  proof (cases "fst (RequiresClosing s)")
    case True
    then have u: "fsm_Update R GOAL_STOW s =
        UpdateCallback STATE_STOWING_SETTING GOAL_STOW
          ((snd (Arm GRIPPER ?s1))\<lparr>fsm_state := STATE_STOWING_SETTING\<rparr>)"
      using assms(1) ag by (simp add: fsm_Update_GOAL_STOW Let_def)
    obtain rest where "sent (fsm_Update R GOAL_STOW s) = sent (snd (Arm GRIPPER ?s1)) @ rest"
      unfolding u using UpdateCallback_sent_prefix by blast
    then show ?thesis
      using True sg by (auto simp: Let_def u RequiresClosing_fst)
  next
    case False
    then have u: "fsm_Update R GOAL_STOW s =
        UpdateCallback STATE_STOWING_PANNING GOAL_STOW
          ((snd (Arm PAN ?s1))\<lparr>fsm_state := STATE_STOWING_PANNING\<rparr>)"
      using assms(1) ap by (simp add: fsm_Update_GOAL_STOW Let_def)
    obtain rest where "sent (fsm_Update R GOAL_STOW s) = sent (snd (Arm PAN ?s1)) @ rest"
      unfolding u using UpdateCallback_sent_prefix by blast
    then show ?thesis
      using False sp by (auto simp: Let_def u RequiresClosing_fst)
  qed
qed


lemma GoalCallback_ARM_STOW:
  "command g = ARM_STOW \<Longrightarrow> fsm_state s = STATE_DEPLOYED \<Longrightarrow>
   GoalCallback R g s =
     fsm_Update R GOAL_STOW
       (joints_assign GRIPPER (\<lambda>j. j\<lparr>goal := K_GRIPPER_STOW\<rparr>)
         (joints_assign TILT (\<lambda>j. j\<lparr>goal := K_TILT_STOW\<rparr>)
           (joints_assign PAN (\<lambda>j. j\<lparr>goal := K_PAN_STOW\<rparr>) s)))"
  by (simp add: GoalCallback_def Let_def)

lemma fsm_Update_TIMEOUT_PANNING:
  "fsm_state s = STATE_PANNING \<Longrightarrow>
   fsm_Update R TIMEOUT s =
     UpdateCallback (fst (Result R (RESPONSE_PAN_FAILED R) False s)) TIMEOUT
       ((snd (Result R (RESPONSE_PAN_FAILED R) False s))
          \<lparr>fsm_state := fst (Result R (RESPONSE_PAN_FAILED R) False s)\<rparr>)"
  by (simp add: fsm_Update_def fsm_table_def fsm_Add_def case_prod_beta)

lemma double_0_1_above_tenth: "1 / 10 < double_0_1"
  by (simp add: double_0_1_def)

text \<open>
  At the margin itself the check does not reject: a pan of exactly \<open>double_0_1\<close> with a
  tilt of 100 passes, as in the source, where \<open>fabs(new_p - K_PAN_STOW) > 0.1\<close> is false.
\<close>

lemma move_rejection_at_margin:
  "fsm_state s = STATE_DEPLOYED \<Longrightarrow> proposed_pan g s = double_0_1 \<Longrightarrow>
   proposed_tilt g s = 100 \<Longrightarrow> move_rejection R g s = None"
  by (simp add: move_rejection_def K_defs double_0_1_def)

section \<open>The tolerant comparison\<close>

text \<open>
  Claim C5. \<open>Equal\<close> computes \<open>180 - | |value - target| - 180 | < tolerance\<close> on the
  entry of the joint; the comparison is symmetric under swapping the value of the joint
  and the target; and with a tolerance of 3 degrees it judges 179 degrees and -179 degrees
  to be at target, whichever of the two is the value and whichever the target.
\<close>

theorem Equal_wraparound:
  "fst (Equal t v s) =
     (180 - \<bar>\<bar>val (fst (joints_at t s)) - v\<bar> - 180\<bar> < tol (fst (joints_at t s)))
   \<and> fst (Equal t b (joints_assign t (\<lambda>j. j\<lparr>val := a\<rparr>) s))
       = fst (Equal t a (joints_assign t (\<lambda>j. j\<lparr>val := b\<rparr>) s))
   \<and> fst (Equal t (- 179) (joints_assign t (\<lambda>j. j\<lparr>val := 179, tol := 3\<rparr>) s))
   \<and> fst (Equal t 179 (joints_assign t (\<lambda>j. j\<lparr>val := - 179, tol := 3\<rparr>) s))"
  by (auto simp: Equal_fst fst_joints_at joints_assign_def joints_at_def split: option.splits)

section \<open>Resolution of an action\<close>

text \<open>
  Claim C1. For every response code and every nodelet, \<open>Result\<close> leaves every joint of
  the table with its goal set to its current value (and every entry of the resulting
  table has its goal equal to its value); when the state being left tracks a goal
  (one of the nine active sub-action states) it sends the outcome on the result channel;
  and it returns \<open>INITIALIZING\<close> when the code is \<open>COMMUNICATION_ERROR\<close>, otherwise
  \<open>STOWED\<close> when pan is within tolerance of 0 and tilt within tolerance of 180 by the
  wraparound comparison, otherwise \<open>DEPLOYED\<close>.
\<close>

theorem Result_resolves:
  "(\<forall>t j. joints s t = Some j \<longrightarrow>
       joints (snd (Result R code send s)) t = Some (j\<lparr>goal := val j\<rparr>))
   \<and> (\<forall>t j. joints (snd (Result R code send s)) t = Some j \<longrightarrow> goal j = val j)
   \<and> (tracking (fsm_state s) \<longrightarrow>
       sent (snd (Result R code send s)) = sent s @ [SendResult (action_state code) code])
   \<and> fst (Result R code send s) =
       (if code = RESPONSE_COMMUNICATION_ERROR R then STATE_INITIALIZING
        else if fst (Equal PAN K_PAN_STOW s) \<and> fst (Equal TILT K_TILT_STOW s)
             then STATE_STOWED
        else STATE_DEPLOYED)"
  using Result_joints_kept Result_joints_snapped Result_sent Result_fst
  by simp

theorem Result_resolves_witness:
  "tracking (fsm_state (nodelet_example STATE_TILTING 0 179 20))
   \<and> joints (snd (Result R_example 1 False (nodelet_example STATE_TILTING 0 179 20))) PAN
       = Some (joint_example ''arm_pan'' ''pan'' 0 0 0)
   \<and> sent (snd (Result R_example 1 False (nodelet_example STATE_TILTING 0 179 20)))
       = [SendResult ACTION_SUCCESS 1]
   \<and> fst (Result R_example 1 False (nodelet_example STATE_TILTING 0 179 20)) = STATE_STOWED"
  using Result_resolves [of "nodelet_example STATE_TILTING 0 179 20" R_example 1 False]
  by (simp add: tracking_def action_state_def Equal_fst fst_joints_at K_defs)

section \<open>The watchdog\<close>

text \<open>
  Claim C8. When the watchdog expires in state \<open>PANNING\<close>, the state becomes
  \<open>INITIALIZING\<close>, a result carrying \<open>COMMUNICATION_ERROR\<close> is sent on the result channel,
  and the goals of pan and tilt become their current values, which do not change.
\<close>

theorem WatchdogCallback_PANNING:
  "fsm_state s = STATE_PANNING \<Longrightarrow>
     fsm_state (WatchdogCallback R s) = STATE_INITIALIZING
   \<and> sent (WatchdogCallback R s) =
       sent s @ [SendResult (action_state (RESPONSE_COMMUNICATION_ERROR R))
                   (RESPONSE_COMMUNICATION_ERROR R)]
   \<and> goal (fst (joints_at PAN (WatchdogCallback R s))) = val (fst (joints_at PAN s))
   \<and> val (fst (joints_at PAN (WatchdogCallback R s))) = val (fst (joints_at PAN s))
   \<and> goal (fst (joints_at TILT (WatchdogCallback R s))) = val (fst (joints_at TILT s))
   \<and> val (fst (joints_at TILT (WatchdogCallback R s))) = val (fst (joints_at TILT s))"
  by (simp add: WatchdogCallback_def fsm_SetState_def case_prod_beta Result_fst Result_sent
      Result_entry tracking_def)

theorem WatchdogCallback_PANNING_witness:
  "fsm_state (nodelet_example STATE_PANNING 10 60 20) = STATE_PANNING
   \<and> fsm_state (WatchdogCallback R_example (nodelet_example STATE_PANNING 10 60 20))
       = STATE_INITIALIZING
   \<and> sent (WatchdogCallback R_example (nodelet_example STATE_PANNING 10 60 20))
       = [SendResult ACTION_ABORTED (- 12)]
   \<and> goal (fst (joints_at PAN (WatchdogCallback R_example (nodelet_example STATE_PANNING 10 60 20)))) = 10
   \<and> goal (fst (joints_at PAN (nodelet_example STATE_PANNING 10 60 20))) = 45
   \<and> goal (fst (joints_at TILT (WatchdogCallback R_example (nodelet_example STATE_PANNING 10 60 20)))) = 60"
  using WatchdogCallback_PANNING [of "nodelet_example STATE_PANNING 10 60 20" R_example]
  by (simp add: action_state_def fst_joints_at)

section \<open>What a resolution sends\<close>

text \<open>
  Claim C4. Every call of \<open>Result\<close> emits a hold-position joint command for each of the
  three joints, so that a failure never leaves a joint in motion under a stale target.
  The comments of \<open>Result\<close> state that intent for pan and tilt (bring the whole system to
  a halt; stop pan and tilt, but do not touch the gripper), but the two calls that would
  do it, \<open>Arm(PAN)\<close> and \<open>Arm(TILT)\<close>, are commented out. The source therefore falls
  short of the claim. When the goal timer expires in state \<open>PANNING\<close>, with pan at 10 on
  its way to a goal of 45, \<open>Result\<close> writes 10 to the pan goal and the machine goes to
  \<open>DEPLOYED\<close>; the nodelet sends the aborted result and the two state messages, and no
  joint command, so the driver keeps the target 45 it was given.
\<close>

theorem TimeoutCallback_PANNING_no_hold:
  "fsm_state (nodelet_example STATE_PANNING 10 60 20) = STATE_PANNING
   \<and> goal (fst (joints_at PAN (nodelet_example STATE_PANNING 10 60 20))) = 45
   \<and> fsm_state (TimeoutCallback R_example (nodelet_example STATE_PANNING 10 60 20))
       = STATE_DEPLOYED
   \<and> goal (fst (joints_at PAN
        (TimeoutCallback R_example (nodelet_example STATE_PANNING 10 60 20)))) = 10
   \<and> sent (TimeoutCallback R_example (nodelet_example STATE_PANNING 10 60 20))
       = [SendResult ACTION_ABORTED (- 1), PublishState STATE_DEPLOYED,
          PublishArmState GRIPPER_CLOSED JOINT_STOPPED]"
  by (simp add: TimeoutCallback_def fsm_Update_TIMEOUT_PANNING UpdateCallback_def
      case_prod_beta Let_def Result_fst Result_sent Result_entry Equal_fst K_defs
      tracking_def action_state_def)

section \<open>Events without a transition\<close>

text \<open>
  Claim C2. When the table has no entry for the current state and the event, delivering
  the event leaves the state, the goal of each of the three joints, the joint table and
  the trace of what was sent as they were.
\<close>

theorem unmatched_event_ignored:
  "fsm_table R (fsm_state s, event) = None \<Longrightarrow>
     fsm_state (fsm_Update R event s) = fsm_state s
   \<and> (\<forall>t. goal (fst (joints_at t (fsm_Update R event s))) = goal (fst (joints_at t s)))
   \<and> joints (fsm_Update R event s) = joints s
   \<and> sent (fsm_Update R event s) = sent s"
  by (simp add: fsm_Update_def)

theorem unmatched_event_ignored_witness:
  "fsm_table R_example (fsm_state (nodelet_example STATE_DEPLOYED 10 60 20), PAN_COMPLETE) = None
   \<and> fsm_state (fsm_Update R_example PAN_COMPLETE (nodelet_example STATE_DEPLOYED 10 60 20))
       = STATE_DEPLOYED
   \<and> goal (fst (joints_at PAN
        (fsm_Update R_example PAN_COMPLETE (nodelet_example STATE_DEPLOYED 10 60 20)))) = 45
   \<and> goal (fst (joints_at TILT
        (fsm_Update R_example PAN_COMPLETE (nodelet_example STATE_DEPLOYED 10 60 20)))) = 60
   \<and> goal (fst (joints_at GRIPPER
        (fsm_Update R_example PAN_COMPLETE (nodelet_example STATE_DEPLOYED 10 60 20)))) = 20"
  using unmatched_event_ignored [of R_example "nodelet_example STATE_DEPLOYED 10 60 20" PAN_COMPLETE]
  by (simp add: fsm_table_def fsm_Add_def fst_joints_at)

section \<open>Stowing from the deployed state\<close>

text \<open>
  Claim C7. In state \<open>DEPLOYED\<close> the gripper requires closing if and only if its value is
  neither within wraparound tolerance of the calibration sentinel nor within wraparound
  tolerance of the gripper stow position. With the pan joint registered, the event
  \<open>GOAL_STOW\<close> leads to \<open>STOWING_SETTING\<close> if and only if the gripper requires closing,
  and the first message sent is then the gripper goal; when the gripper does not require
  closing, the first message sent is the pan goal and the state becomes
  \<open>STOWING_PANNING\<close>. The same holds of the states that an \<open>ARM_STOW\<close> command leads to,
  and there without a condition on the table: the command registers the joints by
  assigning their goals before it raises the event.
\<close>

theorem GOAL_STOW_from_DEPLOYED:
  assumes "fsm_state s = STATE_DEPLOYED"
  shows "let closing = (\<not> fst (Equal GRIPPER K_GRIPPER_CAL s)
                        \<and> \<not> fst (Equal GRIPPER K_GRIPPER_STOW s))
         in fst (RequiresClosing s) = closing
          \<and> (\<forall>p. joints s PAN = Some p \<longrightarrow>
               (let g = fst (joints_at GRIPPER s); s' = fsm_Update R GOAL_STOW s
                in (fsm_state s' = STATE_STOWING_SETTING \<longleftrightarrow> closing)
                 \<and> (closing \<longrightarrow>
                      (\<exists>rest. sent s' =
                         sent s @ PublishJointGoal (name g) (driver_position g) # rest))
                 \<and> (\<not> closing \<longrightarrow>
                      fsm_state s' = STATE_STOWING_PANNING
                    \<and> (\<exists>rest. sent s' =
                         sent s @ PublishJointGoal (name p) (driver_position p) # rest))))
          \<and> (command c = ARM_STOW \<longrightarrow>
               (let s' = GoalCallback R c s
                in (fsm_state s' = STATE_STOWING_SETTING \<longleftrightarrow> closing)
                 \<and> (\<not> closing \<longrightarrow> fsm_state s' = STATE_STOWING_PANNING)))"
proof -
  let ?s1 = "joints_assign GRIPPER (\<lambda>j. j\<lparr>goal := K_GRIPPER_STOW\<rparr>)
         (joints_assign TILT (\<lambda>j. j\<lparr>goal := K_TILT_STOW\<rparr>)
           (joints_assign PAN (\<lambda>j. j\<lparr>goal := K_PAN_STOW\<rparr>) s))"
  have st: "fsm_state ?s1 = STATE_DEPLOYED"
    using assms by simp
  have pan: "joints ?s1 PAN = Some ((fst (joints_at PAN s))\<lparr>goal := K_PAN_STOW\<rparr>)"
    by (simp add: joints_joints_assign)
  have eq: "fst (Equal GRIPPER v ?s1) = fst (Equal GRIPPER v s)" for v
    by (simp add: Equal_fst fst_joints_at_assign)
  have cmd: "(fsm_state (GoalCallback R c s) = STATE_STOWING_SETTING \<longleftrightarrow>
        \<not> fst (Equal GRIPPER K_GRIPPER_CAL s) \<and> \<not> fst (Equal GRIPPER K_GRIPPER_STOW s))
      \<and> (\<not> (\<not> fst (Equal GRIPPER K_GRIPPER_CAL s) \<and> \<not> fst (Equal GRIPPER K_GRIPPER_STOW s))
           \<longrightarrow> fsm_state (GoalCallback R c s) = STATE_STOWING_PANNING)"
    if "command c = ARM_STOW"
    using GOAL_STOW_event [OF st pan, of R] that assms
    by (simp add: Let_def eq GoalCallback_ARM_STOW)
  have ev: "(fsm_state (fsm_Update R GOAL_STOW s) = STATE_STOWING_SETTING \<longleftrightarrow>
        \<not> fst (Equal GRIPPER K_GRIPPER_CAL s) \<and> \<not> fst (Equal GRIPPER K_GRIPPER_STOW s))
      \<and> (\<not> fst (Equal GRIPPER K_GRIPPER_CAL s) \<and> \<not> fst (Equal GRIPPER K_GRIPPER_STOW s) \<longrightarrow>
           (\<exists>rest. sent (fsm_Update R GOAL_STOW s) =
              sent s @ PublishJointGoal (name (fst (joints_at GRIPPER s)))
                         (driver_position (fst (joints_at GRIPPER s))) # rest))
      \<and> (\<not> (\<not> fst (Equal GRIPPER K_GRIPPER_CAL s) \<and> \<not> fst (Equal GRIPPER K_GRIPPER_STOW s))
           \<longrightarrow> fsm_state (fsm_Update R GOAL_STOW s) = STATE_STOWING_PANNING
             \<and> (\<exists>rest. sent (fsm_Update R GOAL_STOW s) =
                   sent s @ PublishJointGoal (name p) (driver_position p) # rest))"
    if "joints s PAN = Some p" for p
    using GOAL_STOW_event [OF assms that, of R] by (simp add: Let_def)
  show ?thesis
    unfolding Let_def using cmd ev by (simp add: RequiresClosing_fst)
qed

theorem GOAL_STOW_from_DEPLOYED_witness:
  "fsm_state (nodelet_example STATE_DEPLOYED 0 0 20) = STATE_DEPLOYED
   \<and> joints (nodelet_example STATE_DEPLOYED 0 0 20) PAN
       = Some (joint_example ''arm_pan'' ''pan'' 0 45 0)
   \<and> command stow_example = ARM_STOW
   \<and> \<not> fst (RequiresClosing (nodelet_example STATE_DEPLOYED 0 0 20))
   \<and> fsm_state (fsm_Update R_example GOAL_STOW (nodelet_example STATE_DEPLOYED 0 0 20))
       = STATE_STOWING_PANNING
   \<and> fsm_state (GoalCallback R_example stow_example (nodelet_example STATE_DEPLOYED 0 0 20))
       = STATE_STOWING_PANNING
   \<and> fsm_state (nodelet_example STATE_DEPLOYED 0 0 40) = STATE_DEPLOYED
   \<and> fst (RequiresClosing (nodelet_example STATE_DEPLOYED 0 0 40))
   \<and> fsm_state (fsm_Update R_example GOAL_STOW (nodelet_example STATE_DEPLOYED 0 0 40))
       = STATE_STOWING_SETTING
   \<and> fsm_state (GoalCallback R_example stow_example (nodelet_example STATE_DEPLOYED 0 0 40))
       = STATE_STOWING_SETTING"
  using GOAL_STOW_from_DEPLOYED [of "nodelet_example STATE_DEPLOYED 0 0 20" R_example stow_example]
        GOAL_STOW_from_DEPLOYED [of "nodelet_example STATE_DEPLOYED 0 0 40" R_example stow_example]
  by (simp add: Let_def Equal_fst K_defs stow_example_def)


section \<open>Calibrating the gripper\<close>

text \<open>
  Claim C9. A \<open>GRIPPER_CALIBRATE\<close> command received in state \<open>DEPLOYED\<close> sets the goal of
  the tilt joint, not of the gripper joint, to the calibration sentinel -100, leaves the
  goals of pan and gripper as they were, and raises \<open>GOAL_CALIBRATE\<close> on the state so
  obtained. With the gripper joint registered the event leads to \<open>CALIBRATING\<close>, and the
  three goals are still those when the callback returns.
\<close>

theorem GRIPPER_CALIBRATE_sets_tilt_goal:
  assumes "command g = GRIPPER_CALIBRATE" and "fsm_state s = STATE_DEPLOYED"
  shows "let s1 = joints_assign TILT (\<lambda>j. j\<lparr>goal := K_GRIPPER_CAL\<rparr>) s;
             s' = GoalCallback R g s
         in s' = fsm_Update R GOAL_CALIBRATE s1
          \<and> goal (fst (joints_at TILT s1)) = - 100
          \<and> goal (fst (joints_at PAN s1)) = goal (fst (joints_at PAN s))
          \<and> goal (fst (joints_at GRIPPER s1)) = goal (fst (joints_at GRIPPER s))
          \<and> (joints s GRIPPER \<noteq> None \<longrightarrow>
                fsm_state s' = STATE_CALIBRATING
              \<and> goal (fst (joints_at TILT s')) = - 100
              \<and> goal (fst (joints_at PAN s')) = goal (fst (joints_at PAN s))
              \<and> goal (fst (joints_at GRIPPER s')) = goal (fst (joints_at GRIPPER s)))"
proof -
  let ?s1 = "joints_assign TILT (\<lambda>j. j\<lparr>goal := K_GRIPPER_CAL\<rparr>) s"
  have gc: "GoalCallback R g s = fsm_Update R GOAL_CALIBRATE ?s1"
    using assms by (simp add: GoalCallback_def)
  have s1: "goal (fst (joints_at TILT ?s1)) = - 100"
      "goal (fst (joints_at PAN ?s1)) = goal (fst (joints_at PAN s))"
      "goal (fst (joints_at GRIPPER ?s1)) = goal (fst (joints_at GRIPPER s))"
    by (simp_all add: fst_joints_at_assign K_GRIPPER_CAL_def)
  have fin: "fsm_state (fsm_Update R GOAL_CALIBRATE ?s1) = STATE_CALIBRATING
      \<and> (\<forall>t. fst (joints_at t (fsm_Update R GOAL_CALIBRATE ?s1)) = fst (joints_at t ?s1))"
    if "joints s GRIPPER \<noteq> None"
  proof -
    have "fst (Arm GRIPPER ?s1)"
      using that by (simp add: Arm_fst joints_joints_assign)
    then show ?thesis
      using assms(2) by (simp add: fsm_Update_GOAL_CALIBRATE Let_def)
  qed
  show ?thesis
    unfolding Let_def gc using s1 fin by simp
qed

theorem GRIPPER_CALIBRATE_sets_tilt_goal_witness:
  "command \<lparr>command = GRIPPER_CALIBRATE, pan = 0, tilt = 0, gripper = 0\<rparr> = GRIPPER_CALIBRATE
   \<and> fsm_state (nodelet_example STATE_DEPLOYED 10 60 (- 100)) = STATE_DEPLOYED
   \<and> joints (nodelet_example STATE_DEPLOYED 10 60 (- 100)) GRIPPER \<noteq> None
   \<and> fsm_state (GoalCallback R_example \<lparr>command = GRIPPER_CALIBRATE, pan = 0, tilt = 0, gripper = 0\<rparr>
        (nodelet_example STATE_DEPLOYED 10 60 (- 100))) = STATE_CALIBRATING
   \<and> goal (fst (joints_at TILT (GoalCallback R_example
        \<lparr>command = GRIPPER_CALIBRATE, pan = 0, tilt = 0, gripper = 0\<rparr>
        (nodelet_example STATE_DEPLOYED 10 60 (- 100))))) = - 100
   \<and> goal (fst (joints_at GRIPPER (GoalCallback R_example
        \<lparr>command = GRIPPER_CALIBRATE, pan = 0, tilt = 0, gripper = 0\<rparr>
        (nodelet_example STATE_DEPLOYED 10 60 (- 100))))) = 20
   \<and> goal (fst (joints_at PAN (GoalCallback R_example
        \<lparr>command = GRIPPER_CALIBRATE, pan = 0, tilt = 0, gripper = 0\<rparr>
        (nodelet_example STATE_DEPLOYED 10 60 (- 100))))) = 45"
  using GRIPPER_CALIBRATE_sets_tilt_goal
          [of "\<lparr>command = GRIPPER_CALIBRATE, pan = 0, tilt = 0, gripper = 0\<rparr>"
              "nodelet_example STATE_DEPLOYED 10 60 (- 100)" R_example]
  by (clarsimp simp: Let_def fst_joints_at)

section \<open>Rejected commands\<close>

text \<open>
  Claim C6. A pan, tilt or move command received in state \<open>STOWED\<close> or \<open>DEPLOYED\<close> is
  checked in the order of the source: it is rejected with \<open>BAD_TILT_VALUE\<close> when the
  proposed tilt is outside [-20, 180]; otherwise with \<open>BAD_PAN_VALUE\<close> when the proposed
  pan is outside [-90, 90]; otherwise with \<open>COLLISION_AVOIDED\<close> when the proposed tilt
  exceeds 90 while the proposed pan is more than 0.1 away from 0, where 0.1 is the double
  that the literal of the source denotes, \<open>double_0_1\<close>. With negative response codes,
  each rejection sends exactly one message, an aborted result with that code, so no joint
  command; and the state does not change. The witness covers tilt 200, and pan 45 with
  tilt 150.
\<close>

theorem move_command_rejections:
  assumes "command g = ARM_PAN \<or> command g = ARM_TILT \<or> command g = ARM_MOVE"
    and "fsm_state s = STATE_STOWED \<or> fsm_state s = STATE_DEPLOYED"
    and "RESPONSE_BAD_TILT_VALUE R < 0"
    and "RESPONSE_BAD_PAN_VALUE R < 0"
    and "RESPONSE_COLLISION_AVOIDED R < 0"
  shows "let new_p = proposed_pan g s; new_t = proposed_tilt g s;
             tilt_bad = (new_t < - 20 \<or> new_t > 180);
             pan_bad = (new_p < - 90 \<or> new_p > 90);
             collision = (new_t > 90 \<and> \<bar>new_p - 0\<bar> > double_0_1);
             s' = GoalCallback R g s
         in (tilt_bad \<longrightarrow>
               sent s' = sent s @ [SendResult ACTION_ABORTED (RESPONSE_BAD_TILT_VALUE R)])
          \<and> (\<not> tilt_bad \<and> pan_bad \<longrightarrow>
               sent s' = sent s @ [SendResult ACTION_ABORTED (RESPONSE_BAD_PAN_VALUE R)])
          \<and> (\<not> tilt_bad \<and> \<not> pan_bad \<and> collision \<longrightarrow>
               sent s' = sent s @ [SendResult ACTION_ABORTED (RESPONSE_COLLISION_AVOIDED R)])
          \<and> (tilt_bad \<or> pan_bad \<or> collision \<longrightarrow> fsm_state s' = fsm_state s)"
proof -
  let ?tb = "proposed_tilt g s < - 20 \<or> proposed_tilt g s > 180"
  let ?pb = "proposed_pan g s < - 90 \<or> proposed_pan g s > 90"
  let ?co = "proposed_tilt g s > 90 \<and> \<bar>proposed_pan g s - 0\<bar> > double_0_1"
  have mr: "move_rejection R g s =
      (if ?tb then Some (RESPONSE_BAD_TILT_VALUE R)
       else if ?pb then Some (RESPONSE_BAD_PAN_VALUE R)
       else if ?co then Some (RESPONSE_COLLISION_AVOIDED R)
       else None)"
  proof -
    have "fsm_state s = STATE_DEPLOYED \<or> fsm_state s = STATE_STOWED"
      using assms(2) by blast
    then show ?thesis
      by (simp add: move_rejection_def K_defs split del: if_split cong: if_cong)
  qed
  have t: "rejected R (RESPONSE_BAD_TILT_VALUE R) s (GoalCallback R g s)" if "?tb"
    using that mr by (intro move_rejection_rejected assms(1)) simp
  have p: "rejected R (RESPONSE_BAD_PAN_VALUE R) s (GoalCallback R g s)" if "\<not> ?tb" "?pb"
    using that mr by (intro move_rejection_rejected assms(1)) simp
  have c: "rejected R (RESPONSE_COLLISION_AVOIDED R) s (GoalCallback R g s)"
    if "\<not> ?tb" "\<not> ?pb" "?co"
    using that mr by (intro move_rejection_rejected assms(1)) simp
  have ab: "action_state (RESPONSE_BAD_TILT_VALUE R) = ACTION_ABORTED"
      "action_state (RESPONSE_BAD_PAN_VALUE R) = ACTION_ABORTED"
      "action_state (RESPONSE_COLLISION_AVOIDED R) = ACTION_ABORTED"
    using assms(3-5) by (simp_all add: action_state_def)
  have 1: "?tb \<longrightarrow>
      sent (GoalCallback R g s) = sent s @ [SendResult ACTION_ABORTED (RESPONSE_BAD_TILT_VALUE R)]
      \<and> fsm_state (GoalCallback R g s) = fsm_state s"
    using rejected_effect(1,2) [OF t] ab by simp
  have 2: "\<not> ?tb \<and> ?pb \<longrightarrow>
      sent (GoalCallback R g s) = sent s @ [SendResult ACTION_ABORTED (RESPONSE_BAD_PAN_VALUE R)]
      \<and> fsm_state (GoalCallback R g s) = fsm_state s"
    using rejected_effect(1,2) [OF p] ab by simp
  have 3: "\<not> ?tb \<and> \<not> ?pb \<and> ?co \<longrightarrow>
      sent (GoalCallback R g s) =
        sent s @ [SendResult ACTION_ABORTED (RESPONSE_COLLISION_AVOIDED R)]
      \<and> fsm_state (GoalCallback R g s) = fsm_state s"
    using rejected_effect(1,2) [OF c] ab by simp
  show ?thesis
    unfolding Let_def using 1 2 3 by blast
qed

theorem move_command_rejections_witness:
  "command (move_example 0 200) = ARM_MOVE
   \<and> fsm_state (nodelet_example STATE_DEPLOYED 10 60 20) = STATE_DEPLOYED
   \<and> RESPONSE_BAD_TILT_VALUE R_example < 0
   \<and> RESPONSE_BAD_PAN_VALUE R_example < 0
   \<and> RESPONSE_COLLISION_AVOIDED R_example < 0
   \<and> sent (GoalCallback R_example (move_example 0 200) (nodelet_example STATE_DEPLOYED 10 60 20))
       = [SendResult ACTION_ABORTED (- 5)]
   \<and> sent (GoalCallback R_example (move_example 100 0) (nodelet_example STATE_DEPLOYED 10 60 20))
       = [SendResult ACTION_ABORTED (- 6)]
   \<and> sent (GoalCallback R_example (move_example 45 150) (nodelet_example STATE_DEPLOYED 10 60 20))
       = [SendResult ACTION_ABORTED (- 8)]
   \<and> fsm_state (GoalCallback R_example (move_example 0 200)
        (nodelet_example STATE_DEPLOYED 10 60 20)) = STATE_DEPLOYED
   \<and> fsm_state (GoalCallback R_example (move_example 45 150)
        (nodelet_example STATE_DEPLOYED 10 60 20)) = STATE_DEPLOYED"
  using move_command_rejections [of "move_example 0 200"
          "nodelet_example STATE_DEPLOYED 10 60 20" R_example]
        move_command_rejections [of "move_example 100 0"
          "nodelet_example STATE_DEPLOYED 10 60 20" R_example]
        move_command_rejections [of "move_example 45 150"
          "nodelet_example STATE_DEPLOYED 10 60 20" R_example]
  by (simp add: Let_def proposed_pan_def proposed_tilt_def double_0_1_def)

text \<open>
  Claim C10. For every command that \<open>GoalCallback\<close> rejects, with any of the seven codes,
  the callback sends the result with that code and leaves the state as it was, but the
  goal of each of the three joints is overwritten with the current value of the joint,
  which itself does not change. In the witness the pan goal goes from 45 to 10 on a
  rejected gripper command: a rejection preserves the state, not the goals.
\<close>

theorem rejection_overwrites_goals:
  assumes "rejection R g s = Some code"
  shows "let s' = GoalCallback R g s
         in sent s' = sent s @ [SendResult (action_state code) code]
          \<and> fsm_state s' = fsm_state s
          \<and> (\<forall>t. goal (fst (joints_at t s')) = val (fst (joints_at t s))
                 \<and> val (fst (joints_at t s')) = val (fst (joints_at t s)))"
  using rejected_effect [OF rejection_rejected [OF assms]] by (simp add: Let_def)

theorem rejection_overwrites_goals_witness:
  "rejection R_example (gripper_set_example 60) (nodelet_example STATE_DEPLOYED 10 60 (- 100))
     = Some (- 9)
   \<and> fsm_state (GoalCallback R_example (gripper_set_example 60)
        (nodelet_example STATE_DEPLOYED 10 60 (- 100))) = STATE_DEPLOYED
   \<and> sent (GoalCallback R_example (gripper_set_example 60)
        (nodelet_example STATE_DEPLOYED 10 60 (- 100))) = [SendResult ACTION_ABORTED (- 9)]
   \<and> goal (fst (joints_at PAN (nodelet_example STATE_DEPLOYED 10 60 (- 100)))) = 45
   \<and> goal (fst (joints_at PAN (GoalCallback R_example (gripper_set_example 60)
        (nodelet_example STATE_DEPLOYED 10 60 (- 100))))) = 10
   \<and> goal (fst (joints_at TILT (GoalCallback R_example (gripper_set_example 60)
        (nodelet_example STATE_DEPLOYED 10 60 (- 100))))) = 60
   \<and> goal (fst (joints_at GRIPPER (GoalCallback R_example (gripper_set_example 60)
        (nodelet_example STATE_DEPLOYED 10 60 (- 100))))) = - 100"
  using rejection_overwrites_goals [of R_example "gripper_set_example 60"
          "nodelet_example STATE_DEPLOYED 10 60 (- 100)" "- 9"]
  by (simp add: Let_def rejection_GRIPPER_SET gripper_set_example_def action_state_def
      fst_joints_at)

section \<open>Completion on telemetry\<close>

text \<open>
  Claim C3, as stated, makes the completion event of every active sub-action state depend
  on the waited joint being within tolerance of its target. In state \<open>CALIBRATING\<close> it
  does not: with the gripper goal at 20 and a sample that puts the gripper at 30, the
  gripper is within tolerance neither of its goal nor of the calibration sentinel, and
  yet the goal timer is stopped and \<open>CALIBRATE_COMPLETE\<close> takes the machine to
  \<open>DEPLOYED\<close>.
\<close>

theorem completion_on_telemetry_counterexample:
  "fsm_state (nodelet_example STATE_CALIBRATING 10 60 (- 100)) = STATE_CALIBRATING
   \<and> telemetry_samples (telemetry_example ''arm_gripper'' 5)
        (nodelet_example STATE_CALIBRATING 10 60 (- 100)) \<noteq> []
   \<and> \<not> fst (Equal GRIPPER
        (goal (fst (joints_at GRIPPER (after_telemetry (telemetry_example ''arm_gripper'' 5)
           (nodelet_example STATE_CALIBRATING 10 60 (- 100))))))
        (after_telemetry (telemetry_example ''arm_gripper'' 5)
           (nodelet_example STATE_CALIBRATING 10 60 (- 100))))
   \<and> \<not> fst (Equal GRIPPER K_GRIPPER_CAL
        (after_telemetry (telemetry_example ''arm_gripper'' 5)
           (nodelet_example STATE_CALIBRATING 10 60 (- 100))))
   \<and> TimerGoalStop \<in> set (sent (JointStateCallback R_example
        (telemetry_example ''arm_gripper'' 5) (nodelet_example STATE_CALIBRATING 10 60 (- 100))))
   \<and> fsm_state (JointStateCallback R_example
        (telemetry_example ''arm_gripper'' 5) (nodelet_example STATE_CALIBRATING 10 60 (- 100)))
       = STATE_DEPLOYED"
proof -
  let ?s = "nodelet_example STATE_CALIBRATING 10 60 (- 100)"
  let ?m = "telemetry_example ''arm_gripper'' 5"
  let ?s3 = "emit [TimerGoalStop] (snd (joints_at GRIPPER (after_telemetry ?m ?s)))"
  have cal: "\<not> fst (Equal GRIPPER K_GRIPPER_CAL (after_telemetry ?m ?s))"
    by (simp add: Equal_fst telemetry_example_entries K_GRIPPER_CAL_def)
  have gl: "\<not> fst (Equal GRIPPER (goal (fst (joints_at GRIPPER (after_telemetry ?m ?s))))
      (after_telemetry ?m ?s))"
    by (simp add: Equal_fst telemetry_example_entries)
  have eq: "JointStateCallback R_example ?m ?s =
      JointStateCallback_publish (telemetry_samples ?m ?s)
        (fsm_Update R_example CALIBRATE_COMPLETE ?s3)"
    using cal by (simp add: JointStateCallback_wait_CALIBRATING)
  have up: "fsm_Update R_example CALIBRATE_COMPLETE ?s3 =
      UpdateCallback (fst (Result R_example 1 False ?s3)) CALIBRATE_COMPLETE
        ((snd (Result R_example 1 False ?s3))\<lparr>fsm_state := fst (Result R_example 1 False ?s3)\<rparr>)"
    using fsm_Update_CALIBRATE_COMPLETE [of ?s3 R_example] by simp
  have st: "fst (Result R_example 1 False ?s3) = STATE_DEPLOYED"
    by (simp add: Result_fst Equal_fst telemetry_example_entries K_defs)
  obtain xs where "sent (fsm_Update R_example CALIBRATE_COMPLETE ?s3) = sent ?s3 @ xs"
    using advances_CALIBRATE_COMPLETE [of ?s3 R_example] by (auto simp: advances_def)
  then have "TimerGoalStop \<in> set (sent (JointStateCallback R_example ?m ?s))"
    by (simp add: eq)
  moreover have "fsm_state (JointStateCallback R_example ?m ?s) = STATE_DEPLOYED"
    by (simp add: eq up st)
  ultimately show ?thesis
    using cal gl by simp
qed

text \<open>
  Claim C3, amended. When a message with at least one recognized sample is processed:
  in the three panning states, the goal timer is cancelled and \<open>PAN_COMPLETE\<close> raised if
  and only if the pan value is within wraparound tolerance of the pan goal; likewise for
  tilt and \<open>TILT_COMPLETE\<close> in the three tilting states, and for the gripper and
  \<open>GRIPPER_COMPLETE\<close> in \<open>SETTING\<close> and \<open>STOWING_SETTING\<close>; in \<open>CALIBRATING\<close>, the goal
  timer is cancelled and \<open>CALIBRATE_COMPLETE\<close> raised if and only if the gripper value is
  not within wraparound tolerance of the calibration sentinel -100.
\<close>

theorem completion_on_telemetry:
  assumes "telemetry_samples msg s \<noteq> []"
  shows "(fsm_state s = STATE_PANNING \<or> fsm_state s = STATE_STOWING_PANNING
            \<or> fsm_state s = STATE_DEPLOYING_PANNING \<longrightarrow>
          completes_when R msg s PAN PAN_COMPLETE
            (fst (Equal PAN (goal (fst (joints_at PAN (after_telemetry msg s))))
                    (after_telemetry msg s))))
       \<and> (fsm_state s = STATE_TILTING \<or> fsm_state s = STATE_STOWING_TILTING
            \<or> fsm_state s = STATE_DEPLOYING_TILTING \<longrightarrow>
          completes_when R msg s TILT TILT_COMPLETE
            (fst (Equal TILT (goal (fst (joints_at TILT (after_telemetry msg s))))
                    (after_telemetry msg s))))
       \<and> (fsm_state s = STATE_SETTING \<or> fsm_state s = STATE_STOWING_SETTING \<longrightarrow>
          completes_when R msg s GRIPPER GRIPPER_COMPLETE
            (fst (Equal GRIPPER (goal (fst (joints_at GRIPPER (after_telemetry msg s))))
                    (after_telemetry msg s))))
       \<and> (fsm_state s = STATE_CALIBRATING \<longrightarrow>
          completes_when R msg s GRIPPER CALIBRATE_COMPLETE
            (\<not> fst (Equal GRIPPER K_GRIPPER_CAL (after_telemetry msg s))))"
proof (intro conjI impI)
  assume st: "fsm_state s = STATE_PANNING \<or> fsm_state s = STATE_STOWING_PANNING
            \<or> fsm_state s = STATE_DEPLOYING_PANNING"
  show "completes_when R msg s PAN PAN_COMPLETE
      (fst (Equal PAN (goal (fst (joints_at PAN (after_telemetry msg s)))) (after_telemetry msg s)))"
    using st
    by (intro completes_whenI JointStateCallback_wait_PAN assms advances_PAN_COMPLETE) simp_all
next
  assume st: "fsm_state s = STATE_TILTING \<or> fsm_state s = STATE_STOWING_TILTING
            \<or> fsm_state s = STATE_DEPLOYING_TILTING"
  show "completes_when R msg s TILT TILT_COMPLETE
      (fst (Equal TILT (goal (fst (joints_at TILT (after_telemetry msg s)))) (after_telemetry msg s)))"
    using st
    by (intro completes_whenI JointStateCallback_wait_TILT assms advances_TILT_COMPLETE) simp_all
next
  assume st: "fsm_state s = STATE_SETTING \<or> fsm_state s = STATE_STOWING_SETTING"
  show "completes_when R msg s GRIPPER GRIPPER_COMPLETE
      (fst (Equal GRIPPER (goal (fst (joints_at GRIPPER (after_telemetry msg s))))
         (after_telemetry msg s)))"
    using st
    by (intro completes_whenI JointStateCallback_wait_GRIPPER assms advances_GRIPPER_COMPLETE)
       simp_all
next
  assume st: "fsm_state s = STATE_CALIBRATING"
  show "completes_when R msg s GRIPPER CALIBRATE_COMPLETE
      (\<not> fst (Equal GRIPPER K_GRIPPER_CAL (after_telemetry msg s)))"
    using st
    by (intro completes_whenI JointStateCallback_wait_CALIBRATING assms
        advances_CALIBRATE_COMPLETE) simp_all
qed

theorem completion_on_telemetry_witness:
  "telemetry_samples (telemetry_example ''arm_pan'' (45 / 2))
     (nodelet_example STATE_PANNING 10 60 20) \<noteq> []
   \<and> fsm_state (nodelet_example STATE_PANNING 10 60 20) = STATE_PANNING
   \<and> fst (Equal PAN 45 (after_telemetry (telemetry_example ''arm_pan'' (45 / 2))
        (nodelet_example STATE_PANNING 10 60 20)))
   \<and> TimerGoalStop \<in> set (sent (JointStateCallback R_example
        (telemetry_example ''arm_pan'' (45 / 2)) (nodelet_example STATE_PANNING 10 60 20)))
   \<and> fsm_state (JointStateCallback R_example
        (telemetry_example ''arm_pan'' (45 / 2)) (nodelet_example STATE_PANNING 10 60 20))
       \<noteq> STATE_PANNING
   \<and> fsm_state (nodelet_example STATE_TILTING 45 10 20) = STATE_TILTING
   \<and> \<not> fst (Equal TILT 60 (after_telemetry (telemetry_example ''arm_pan'' (45 / 2))
        (nodelet_example STATE_TILTING 45 10 20)))
   \<and> TimerGoalStop \<notin> set (sent (JointStateCallback R_example
        (telemetry_example ''arm_pan'' (45 / 2)) (nodelet_example STATE_TILTING 45 10 20)))
   \<and> fsm_state (JointStateCallback R_example
        (telemetry_example ''arm_pan'' (45 / 2)) (nodelet_example STATE_TILTING 45 10 20))
       = STATE_TILTING
   \<and> fsm_state (nodelet_example STATE_SETTING 45 60 30) = STATE_SETTING
   \<and> fsm_state (JointStateCallback R_example
        (telemetry_example ''arm_pan'' (45 / 2)) (nodelet_example STATE_SETTING 45 60 30))
       = STATE_SETTING
   \<and> fsm_state (nodelet_example STATE_CALIBRATING 45 60 30) = STATE_CALIBRATING
   \<and> fsm_state (JointStateCallback R_example
        (telemetry_example ''arm_pan'' (45 / 2)) (nodelet_example STATE_CALIBRATING 45 60 30))
       \<noteq> STATE_CALIBRATING"
  using completion_on_telemetry [of "telemetry_example ''arm_pan'' (45 / 2)"
          "nodelet_example STATE_PANNING 10 60 20" R_example]
        completion_on_telemetry [of "telemetry_example ''arm_pan'' (45 / 2)"
          "nodelet_example STATE_TILTING 45 10 20" R_example]
        completion_on_telemetry [of "telemetry_example ''arm_pan'' (45 / 2)"
          "nodelet_example STATE_SETTING 45 60 30" R_example]
        completion_on_telemetry [of "telemetry_example ''arm_pan'' (45 / 2)"
          "nodelet_example STATE_CALIBRATING 45 60 30" R_example]
  by (clarsimp simp: Equal_fst telemetry_example_entries K_GRIPPER_CAL_def completes_when_def
      Let_def)

end
